theory Spec2Isabelle
  imports Main
begin

section \<open>Errors, JSON values and the data model of \<open>power_cost.py\<close>\<close>

text \<open>
  Every exception the program or one of its library calls can raise is a value.
  \<open>Exception msg\<close> is the plain \<^verbatim>\<open>Exception(f"Failed to fetch data: {status}")\<close> of
  line 65; the others are the library's own.
\<close>

datatype error =
    Exception string
  | ValueError
  | OverflowError
  | TypeError
  | ParserError
  | JSONDecodeError
  | RequestException
  | FileExistsError
  | FileNotFoundError
  | NotADirectoryError
  | IsADirectoryError

text \<open>
  What \<^verbatim>\<open>json.load\<close> and \<^verbatim>\<open>response.json()\<close> return. The program never computes
  with a number, so the number type is a parameter \<open>'n\<close> (Python's \<^verbatim>\<open>int\<close> and
  \<^verbatim>\<open>float\<close>). An object is an association list; a decoded object has no duplicate key.
\<close>

datatype 'n json =
    JNull
  | JBool bool
  | JNumber 'n
  | JString string
  | JArray "'n json list"
  | JObject "(string \<times> 'n json) list"

datatype PriceArea = SE1 | SE2 | SE3 | SE4

text \<open>\<^verbatim>\<open>area.name\<close>: the member's name, not its value (the city).\<close>

fun PriceArea_name :: "PriceArea \<Rightarrow> string" where
  "PriceArea_name SE1 = ''SE1''"
| "PriceArea_name SE2 = ''SE2''"
| "PriceArea_name SE3 = ''SE3''"
| "PriceArea_name SE4 = ''SE4''"

text \<open>
  The dataclass. Its annotations are not enforced: \<^verbatim>\<open>ElectricityCost(**item)\<close> stores
  whatever JSON value each key holds, so every field is a JSON value.
\<close>

record 'n ElectricityCost =
  SEK_per_kWh :: "'n json"
  EUR_per_kWh :: "'n json"
  EXR :: "'n json"
  time_start :: "'n json"
  time_end :: "'n json"

definition field_names :: "string list" where
  "field_names = [''SEK_per_kWh'', ''EUR_per_kWh'', ''EXR'', ''time_start'', ''time_end'']"

text \<open>
  \<^verbatim>\<open>ElectricityCost(**item)\<close>: \<open>item\<close> must be a mapping whose keys are exactly the five
  field names; an unexpected or a missing keyword is a \<^verbatim>\<open>TypeError\<close>.
\<close>

definition lookup_field :: "(string \<times> 'n json) list \<Rightarrow> string \<Rightarrow> 'n json" where
  "lookup_field kvs k = (case map_of kvs k of Some v \<Rightarrow> v | None \<Rightarrow> JNull)"

definition ElectricityCost_of_item :: "'n json \<Rightarrow> error + 'n ElectricityCost" where
  "ElectricityCost_of_item item =
     (case item of
        JObject kvs \<Rightarrow>
          if list_all (\<lambda>k. k \<in> set field_names) (map fst kvs)
             \<and> list_all (\<lambda>k. map_of kvs k \<noteq> None) field_names
          then Inr \<lparr> SEK_per_kWh = lookup_field kvs ''SEK_per_kWh'',
                     EUR_per_kWh = lookup_field kvs ''EUR_per_kWh'',
                     EXR = lookup_field kvs ''EXR'',
                     time_start = lookup_field kvs ''time_start'',
                     time_end = lookup_field kvs ''time_end'' \<rparr>
          else Inl TypeError
      | _ \<Rightarrow> Inl TypeError)"

text \<open>The list comprehension over items: the first failing item raises.\<close>

fun costs_of_items :: "'n json list \<Rightarrow> error + 'n ElectricityCost list" where
  "costs_of_items [] = Inr []"
| "costs_of_items (item # items) =
     (case ElectricityCost_of_item item of
        Inl e \<Rightarrow> Inl e
      | Inr c \<Rightarrow> (case costs_of_items items of Inl e \<Rightarrow> Inl e | Inr cs \<Rightarrow> Inr (c # cs)))"

text \<open>
  \<^verbatim>\<open>[ElectricityCost(**item) for item in data]\<close> for any decoded \<open>data\<close>: a list is
  iterated; an object iterates its keys and a string its characters (neither is a
  mapping, so a non-empty one raises); anything else is not iterable.
\<close>

definition costs_of_data :: "'n json \<Rightarrow> error + 'n ElectricityCost list" where
  "costs_of_data data =
     (case data of
        JArray items \<Rightarrow> costs_of_items items
      | JObject kvs \<Rightarrow> (if kvs = [] then Inr [] else Inl TypeError)
      | JString s \<Rightarrow> (if s = [] then Inr [] else Inl TypeError)
      | _ \<Rightarrow> Inl TypeError)"

section \<open>Decimal formatting\<close>

definition digit_char :: "nat \<Rightarrow> char" where
  "digit_char n = ''0123456789'' ! (n mod 10)"

fun str_nat :: "nat \<Rightarrow> string" where
  "str_nat n = (if n < 10 then [digit_char n] else str_nat (n div 10) @ [digit_char (n mod 10)])"

declare str_nat.simps [simp del]

text \<open>\<^verbatim>\<open>str(n)\<close> of a Python integer.\<close>

definition str_int :: "int \<Rightarrow> string" where
  "str_int i = (if i < 0 then CHR ''-'' # str_nat (nat (- i)) else str_nat (nat i))"

text \<open>\<^verbatim>\<open>"%0wd" % n\<close> for \<open>n \<ge> 0\<close>: at least \<open>w\<close> digits, padded with zeros on the left.\<close>

definition zero_pad :: "nat \<Rightarrow> int \<Rightarrow> string" where
  "zero_pad w n = (let s = str_nat (nat n) in replicate (w - length s) CHR ''0'' @ s)"

section \<open>Dates: Python's proleptic Gregorian calendar\<close>

record date =
  year :: int
  month :: int
  day :: int

text \<open>\<open>tzinfo\<close> is the attached UTC offset in seconds, \<open>None\<close> for a naive datetime.\<close>

record datetime = date +
  hour :: int
  minute :: int
  second :: int
  microsecond :: int
  tzinfo :: "int option"

definition is_leap :: "int \<Rightarrow> bool" where
  "is_leap y \<longleftrightarrow> y mod 4 = 0 \<and> (y mod 100 \<noteq> 0 \<or> y mod 400 = 0)"

definition days_before_year :: "int \<Rightarrow> int" where
  "days_before_year y = (let y1 = y - 1 in y1 * 365 + y1 div 4 - y1 div 100 + y1 div 400)"

definition DAYS_IN_MONTH :: "int list" where
  "DAYS_IN_MONTH = [-1, 31, 28, 31, 30, 31, 30, 31, 31, 30, 31, 30, 31]"

definition DAYS_BEFORE_MONTH :: "int list" where
  "DAYS_BEFORE_MONTH = [-1, 0, 31, 59, 90, 120, 151, 181, 212, 243, 273, 304, 334]"

definition days_in_month :: "int \<Rightarrow> int \<Rightarrow> int" where
  "days_in_month y m = (if m = 2 \<and> is_leap y then 29 else DAYS_IN_MONTH ! nat m)"

definition days_before_month :: "int \<Rightarrow> int \<Rightarrow> int" where
  "days_before_month y m = DAYS_BEFORE_MONTH ! nat m + (if m > 2 \<and> is_leap y then 1 else 0)"

text \<open>The ordinal of a date: 0001-01-01 is day 1.\<close>

definition ymd2ord :: "int \<Rightarrow> int \<Rightarrow> int \<Rightarrow> int" where
  "ymd2ord y m d = days_before_year y + days_before_month y m + d"

definition MAXORDINAL :: int where
  "MAXORDINAL = 3652059"

text \<open>The date of an ordinal, by 400-, 100-, 4- and 1-year cycles.\<close>

definition ord2ymd :: "int \<Rightarrow> date" where
  "ord2ymd n0 =
     (let n = n0 - 1;
          n400 = n div 146097; n = n mod 146097;
          n100 = n div 36524; n = n mod 36524;
          n4 = n div 1461; n = n mod 1461;
          n1 = n div 365; n = n mod 365;
          y = n400 * 400 + 1 + n100 * 100 + n4 * 4 + n1
      in if n1 = 4 \<or> n100 = 4 then \<lparr> year = y - 1, month = 12, day = 31 \<rparr>
         else
           let leapyear = (n1 = 3 \<and> (n4 \<noteq> 24 \<or> n100 = 3));
               m = (n + 50) div 32;
               preceding = DAYS_BEFORE_MONTH ! nat m + (if m > 2 \<and> leapyear then 1 else 0)
           in if preceding > n
              then \<lparr> year = y, month = m - 1,
                     day = n - (preceding - (DAYS_IN_MONTH ! nat (m - 1)
                                 + (if m - 1 = 2 \<and> leapyear then 1 else 0))) + 1 \<rparr>
              else \<lparr> year = y, month = m, day = n - preceding + 1 \<rparr>)"

text \<open>The fields a \<^verbatim>\<open>date\<close> or \<^verbatim>\<open>datetime\<close> constructor accepts.\<close>

definition valid_date :: "'a date_scheme \<Rightarrow> bool" where
  "valid_date d \<longleftrightarrow> 1 \<le> year d \<and> year d \<le> 9999 \<and> 1 \<le> month d \<and> month d \<le> 12
                    \<and> 1 \<le> day d \<and> day d \<le> days_in_month (year d) (month d)"

text \<open>
  \<^verbatim>\<open>strftime\<close> with \<^verbatim>\<open>%Y\<close>, \<^verbatim>\<open>%m\<close> and \<^verbatim>\<open>%d\<close>. The C library formats them:
  \<^verbatim>\<open>%Y\<close> is the year as a decimal number with no padding (\<^verbatim>\<open>'999'\<close> for the year 999; four
  digits from the year 1000 on), \<^verbatim>\<open>%m\<close> and \<^verbatim>\<open>%d\<close> are zero-padded to two digits.
\<close>

definition strftime_Y :: "'a date_scheme \<Rightarrow> string" where
  "strftime_Y d = str_int (year d)"

definition strftime_m :: "'a date_scheme \<Rightarrow> string" where
  "strftime_m d = zero_pad 2 (month d)"

definition strftime_d :: "'a date_scheme \<Rightarrow> string" where
  "strftime_d d = zero_pad 2 (day d)"

section \<open>Instants and time zones\<close>

text \<open>
  An aware datetime in UTC is its number of microseconds since 0001-01-01T00:00:00 UTC.
  Python's datetimes range over the years 1 to 9999; arithmetic that leaves the range
  raises \<^verbatim>\<open>OverflowError\<close>.
\<close>

type_synonym instant = int

definition US_PER_SECOND :: int where
  "US_PER_SECOND = 1000000"

definition US_PER_DAY :: int where
  "US_PER_DAY = 86400000000"

definition in_range :: "int \<Rightarrow> bool" where
  "in_range t \<longleftrightarrow> 0 \<le> t \<and> t < MAXORDINAL * US_PER_DAY"

text \<open>The wall-clock fields of a datetime as microseconds since 0001-01-01T00:00:00.\<close>

definition naive_us :: "datetime \<Rightarrow> int" where
  "naive_us dt =
     ((ymd2ord (year dt) (month dt) (day dt) - 1) * 86400
        + hour dt * 3600 + minute dt * 60 + second dt) * US_PER_SECOND + microsecond dt"

text \<open>\<^verbatim>\<open>datetime(y, m, d, tzinfo=pytz.utc)\<close>: midnight UTC; invalid fields are a \<^verbatim>\<open>ValueError\<close>.\<close>

definition datetime_utc :: "int \<Rightarrow> int \<Rightarrow> int \<Rightarrow> error + instant" where
  "datetime_utc y m d =
     (if valid_date \<lparr> year = y, month = m, day = d \<rparr>
      then Inr ((ymd2ord y m d - 1) * US_PER_DAY) else Inl ValueError)"

text \<open>\<^verbatim>\<open>dt + timedelta(microseconds=delta)\<close>.\<close>

definition add_timedelta :: "instant \<Rightarrow> int \<Rightarrow> error + instant" where
  "add_timedelta t delta = (if in_range (t + delta) then Inr (t + delta) else Inl OverflowError)"

text \<open>
  The libraries the program calls, as parameters:
  \<^item> \<open>stockholm_utcoffset\<close>: the offset in seconds that \<^verbatim>\<open>pytz.timezone("Europe/Stockholm")\<close>
    applies at a UTC instant (its \<^verbatim>\<open>fromutc\<close> looks the instant up in the zone's
    transition table);
  \<^item> \<open>parser_parse\<close>: \<^verbatim>\<open>dateutil.parser.parse\<close> on a string;
  \<^item> \<open>system_utcoffset\<close>: the offset of the process's own time zone, which
    \<^verbatim>\<open>astimezone\<close> presumes for a naive datetime;
  \<^item> \<open>requests_get\<close>: \<^verbatim>\<open>requests.get\<close> on a URL: an exception, or a response with its
    status code and its body (\<open>None\<close> when the body is not JSON).
\<close>

record 'n response =
  status_code :: int
  body :: "'n json option"

record 'n env =
  stockholm_utcoffset :: "instant \<Rightarrow> int"
  parser_parse :: "string \<Rightarrow> error + datetime"
  system_utcoffset :: "datetime \<Rightarrow> int"
  requests_get :: "string \<Rightarrow> error + 'n response"

text \<open>\<^verbatim>\<open>t.astimezone(stockholm_tz).date()\<close> for a UTC instant \<open>t\<close>.\<close>

definition stockholm_date :: "'n env \<Rightarrow> instant \<Rightarrow> error + date" where
  "stockholm_date env t =
     (let local = t + stockholm_utcoffset env t * US_PER_SECOND
      in if in_range local then Inr (ord2ymd (local div US_PER_DAY + 1)) else Inl OverflowError)"

text \<open>\<^verbatim>\<open>dt.astimezone(pytz.utc)\<close>: subtract the datetime's own offset.\<close>

definition astimezone_utc :: "'n env \<Rightarrow> datetime \<Rightarrow> error + instant" where
  "astimezone_utc env dt =
     (let offset = (case tzinfo dt of Some s \<Rightarrow> s | None \<Rightarrow> system_utcoffset env dt);
          t = naive_us dt - offset * US_PER_SECOND
      in if in_range t then Inr t else Inl OverflowError)"

text \<open>\<^verbatim>\<open>parser.parse(x)\<close> on a field: anything but a string is a \<^verbatim>\<open>TypeError\<close>.\<close>

definition parse_field :: "'n env \<Rightarrow> 'n json \<Rightarrow> error + datetime" where
  "parse_field env x = (case x of JString s \<Rightarrow> parser_parse env s | _ \<Rightarrow> Inl TypeError)"

text \<open>\<^verbatim>\<open>parser.parse(x).astimezone(pytz.utc)\<close>.\<close>

definition parse_utc :: "'n env \<Rightarrow> 'n json \<Rightarrow> error + instant" where
  "parse_utc env x = (case parse_field env x of Inl e \<Rightarrow> Inl e | Inr dt \<Rightarrow> astimezone_utc env dt)"

text \<open>
  \<^verbatim>\<open>isoformat()\<close> of a UTC datetime: \<^verbatim>\<open>YYYY-MM-DDTHH:MM:SS+00:00\<close>, with
  \<^verbatim>\<open>.ffffff\<close> after the seconds when the microsecond is not zero.
\<close>

definition isoformat_utc :: "instant \<Rightarrow> string" where
  "isoformat_utc t =
     (let d = ord2ymd (t div US_PER_DAY + 1);
          secs = (t mod US_PER_DAY) div US_PER_SECOND;
          us = t mod US_PER_SECOND
      in zero_pad 4 (year d) @ ''-'' @ zero_pad 2 (month d) @ ''-'' @ zero_pad 2 (day d)
         @ ''T'' @ zero_pad 2 (secs div 3600) @ '':'' @ zero_pad 2 (secs mod 3600 div 60)
         @ '':'' @ zero_pad 2 (secs mod 60)
         @ (if us \<noteq> 0 then ''.'' @ zero_pad 6 us else []) @ ''+00:00'')"

section \<open>The file system and the world\<close>

text \<open>
  A path is its list of segments, relative to the working directory. A regular file
  holds what \<^verbatim>\<open>json.load\<close> decodes from it, \<open>None\<close> when its text is not JSON:
  \<^verbatim>\<open>json.dump\<close> followed by \<^verbatim>\<open>json.load\<close> gives the decoded structure back.
\<close>

type_synonym path = "string list"

datatype 'n node = Directory | RegularFile "'n json option"

type_synonym 'n filesystem = "path \<rightharpoonup> 'n node"

definition path_exists :: "'n filesystem \<Rightarrow> path \<Rightarrow> bool" where
  "path_exists f p \<longleftrightarrow> f p \<noteq> None"

definition dirname :: "path \<Rightarrow> path" where
  "dirname p = butlast p"

text \<open>\<^verbatim>\<open>os.path.join\<close> on POSIX, to show a path as a string.\<close>

fun path_join :: "path \<Rightarrow> string" where
  "path_join [] = []"
| "path_join [s] = s"
| "path_join (s # t # ss) = s @ ''/'' @ path_join (t # ss)"

text \<open>\<^verbatim>\<open>os.mkdir\<close>.\<close>

definition mkdir :: "'n filesystem \<Rightarrow> path \<Rightarrow> error + 'n filesystem" where
  "mkdir f p =
     (case f p of
        Some _ \<Rightarrow> Inl FileExistsError
      | None \<Rightarrow>
          if p = [] then Inl FileNotFoundError
          else if dirname p = [] then Inr (f(p \<mapsto> Directory))
          else (case f (dirname p) of
                  None \<Rightarrow> Inl FileNotFoundError
                | Some (RegularFile _) \<Rightarrow> Inl NotADirectoryError
                | Some Directory \<Rightarrow> Inr (f(p \<mapsto> Directory))))"

text \<open>
  \<^verbatim>\<open>os.makedirs(name, exist_ok=True)\<close>: make the missing parent first (a
  \<^verbatim>\<open>FileExistsError\<close> from there is passed over), then the directory itself, where an
  error is passed over when the directory is there. The file system is returned also
  with an error: directories made before it stay.
\<close>

function makedirs :: "'n filesystem \<Rightarrow> path \<Rightarrow> error option \<times> 'n filesystem" where
  "makedirs f name =
     (let r = (if dirname name \<noteq> [] \<and> \<not> path_exists f (dirname name)
               then makedirs f (dirname name) else (None, f))
      in case r of
           (Some e, f1) \<Rightarrow>
             if e = FileExistsError
             then (case mkdir f1 name of
                     Inr f2 \<Rightarrow> (None, f2)
                   | Inl e' \<Rightarrow> if f1 name = Some Directory then (None, f1) else (Some e', f1))
             else (Some e, f1)
         | (None, f1) \<Rightarrow>
             (case mkdir f1 name of
                Inr f2 \<Rightarrow> (None, f2)
              | Inl e' \<Rightarrow> if f1 name = Some Directory then (None, f1) else (Some e', f1)))"
  by pat_completeness auto
termination
  apply (relation "measure (\<lambda>(f, name). length name)")
   apply simp
  apply (case_tac name)
   apply (simp_all add: dirname_def)
  done

declare makedirs.simps [simp del]

text \<open>\<^verbatim>\<open>open(p, 'r')\<close> and \<^verbatim>\<open>json.load\<close>.\<close>

definition open_read :: "'n filesystem \<Rightarrow> path \<Rightarrow> error + 'n json option" where
  "open_read f p =
     (case f p of
        None \<Rightarrow> Inl FileNotFoundError
      | Some Directory \<Rightarrow> Inl IsADirectoryError
      | Some (RegularFile c) \<Rightarrow> Inr c)"

definition json_load :: "'n json option \<Rightarrow> error + 'n json" where
  "json_load c = (case c of None \<Rightarrow> Inl JSONDecodeError | Some j \<Rightarrow> Inr j)"

text \<open>\<^verbatim>\<open>open(p, 'w')\<close> followed by \<^verbatim>\<open>json.dump(data, f)\<close>.\<close>

definition open_write_dump :: "'n filesystem \<Rightarrow> path \<Rightarrow> 'n json \<Rightarrow> error + 'n filesystem" where
  "open_write_dump f p data =
     (case f p of
        Some Directory \<Rightarrow> Inl IsADirectoryError
      | _ \<Rightarrow>
          if p = [] then Inl FileNotFoundError
          else if dirname p = [] then Inr (f(p \<mapsto> RegularFile (Some data)))
          else (case f (dirname p) of
                  None \<Rightarrow> Inl FileNotFoundError
                | Some (RegularFile _) \<Rightarrow> Inl NotADirectoryError
                | Some Directory \<Rightarrow> Inr (f(p \<mapsto> RegularFile (Some data)))))"

text \<open>
  The world a call runs in: the file system, and two traces kept for observation only,
  the URLs requested from the network and the calls of \<^verbatim>\<open>fetch_electricity_cost\<close>, both
  oldest first.
\<close>

record 'n world =
  fs :: "'n filesystem"
  requested :: "string list"
  calls :: "(date \<times> PriceArea) list"

section \<open>\<open>fetch_electricity_cost\<close>\<close>

definition cache_path :: "date \<Rightarrow> PriceArea \<Rightarrow> path" where
  "cache_path d area =
     [''cache'', strftime_Y d, strftime_m d, strftime_d d @ ''_'' @ PriceArea_name area @ ''.json'']"

definition url :: "date \<Rightarrow> PriceArea \<Rightarrow> string" where
  "url d area =
     ''https://www.elprisetjustnu.se/api/v1/prices/'' @ strftime_Y d @ ''/'' @ strftime_m d
       @ ''-'' @ strftime_d d @ ''_'' @ PriceArea_name area @ ''.json''"

definition fetch_electricity_cost ::
  "'n env \<Rightarrow> 'n world \<Rightarrow> date \<Rightarrow> PriceArea \<Rightarrow> (error + 'n ElectricityCost list) \<times> 'n world" where
  "fetch_electricity_cost env w0 d area =
     (let w = w0\<lparr> calls := calls w0 @ [(d, area)] \<rparr>
      in if path_exists (fs w) (cache_path d area)
         then (case open_read (fs w) (cache_path d area) of
                 Inl e \<Rightarrow> (Inl e, w)
               | Inr text \<Rightarrow>
                   (case json_load text of
                      Inl e \<Rightarrow> (Inl e, w)
                    | Inr cached_data \<Rightarrow> (costs_of_data cached_data, w)))
         else
           let w1 = w\<lparr> requested := requested w @ [url d area] \<rparr>
           in (case requests_get env (url d area) of
                 Inl e \<Rightarrow> (Inl e, w1)
               | Inr response \<Rightarrow>
                   if status_code response = 200
                   then (case json_load (body response) of
                           Inl e \<Rightarrow> (Inl e, w1)
                         | Inr data \<Rightarrow>
                             (case makedirs (fs w1) (dirname (cache_path d area)) of
                                (Some e, f1) \<Rightarrow> (Inl e, w1\<lparr> fs := f1 \<rparr>)
                              | (None, f1) \<Rightarrow>
                                  (case open_write_dump f1 (cache_path d area) data of
                                     Inl e \<Rightarrow> (Inl e, w1\<lparr> fs := f1 \<rparr>)
                                   | Inr f2 \<Rightarrow> (costs_of_data data, w1\<lparr> fs := f2 \<rparr>))))
                   else (Inl (Exception (''Failed to fetch data: ''
                                          @ str_int (status_code response))), w1)))"

section \<open>\<open>fetch_electricity_cost_utc\<close>\<close>

text \<open>
  Lines 82 and 83: \<open>start_date_utc\<close> from the year, month and day of the argument, and
  \<open>end_date_utc = start_date_utc + timedelta(days=1) - timedelta(seconds=1)\<close>, the sum
  first.
\<close>

definition utc_day :: "datetime \<Rightarrow> error + instant \<times> instant" where
  "utc_day date_utc =
     (case datetime_utc (year date_utc) (month date_utc) (day date_utc) of
        Inl e \<Rightarrow> Inl e
      | Inr start_date_utc \<Rightarrow>
          (case add_timedelta start_date_utc US_PER_DAY of
             Inl e \<Rightarrow> Inl e
           | Inr next_day \<Rightarrow>
               (case add_timedelta next_day (- US_PER_SECOND) of
                  Inl e \<Rightarrow> Inl e
                | Inr end_date_utc \<Rightarrow> Inr (start_date_utc, end_date_utc))))"

text \<open>
  Lines 90 to 93: one fetch when the two Stockholm dates are equal, otherwise the fetch
  of the start date, then the fetch of the end date, and the two lists concatenated. An
  exception from the first fetch leaves the second one out.
\<close>

definition fetch_stockholm ::
  "'n env \<Rightarrow> 'n world \<Rightarrow> date \<Rightarrow> date \<Rightarrow> PriceArea
     \<Rightarrow> (error + 'n ElectricityCost list) \<times> 'n world" where
  "fetch_stockholm env w start_date_stockholm end_date_stockholm area =
     (if start_date_stockholm = end_date_stockholm
      then fetch_electricity_cost env w start_date_stockholm area
      else (case fetch_electricity_cost env w start_date_stockholm area of
              (Inl e, w1) \<Rightarrow> (Inl e, w1)
            | (Inr costs1, w1) \<Rightarrow>
                (case fetch_electricity_cost env w1 end_date_stockholm area of
                   (Inl e, w2) \<Rightarrow> (Inl e, w2)
                 | (Inr costs2, w2) \<Rightarrow> (Inr (costs1 @ costs2), w2))))"

text \<open>\<^verbatim>\<open>replace(cost, time_start=..., time_end=...)\<close>: a new value, the other fields copied.\<close>

definition replace_times ::
  "'n ElectricityCost \<Rightarrow> string \<Rightarrow> string \<Rightarrow> 'n ElectricityCost" where
  "replace_times cost ts te = cost\<lparr> time_start := JString ts, time_end := JString te \<rparr>"

text \<open>Lines 96 to 104: the loop, with \<open>costs_utc\<close> as the accumulator.\<close>

fun costs_utc_loop ::
  "'n env \<Rightarrow> instant \<Rightarrow> instant \<Rightarrow> 'n ElectricityCost list \<Rightarrow> 'n ElectricityCost list
     \<Rightarrow> error + 'n ElectricityCost list" where
  "costs_utc_loop env start_date_utc end_date_utc costs_utc [] = Inr costs_utc"
| "costs_utc_loop env start_date_utc end_date_utc costs_utc (cost # rest) =
     (case parse_utc env (time_start cost) of
        Inl e \<Rightarrow> Inl e
      | Inr time_start_utc \<Rightarrow>
          (case parse_utc env (time_end cost) of
             Inl e \<Rightarrow> Inl e
           | Inr time_end_utc \<Rightarrow>
               if time_end_utc > start_date_utc \<and> time_start_utc \<le> end_date_utc
               then costs_utc_loop env start_date_utc end_date_utc
                      (costs_utc @ [replace_times cost (isoformat_utc time_start_utc)
                                                       (isoformat_utc time_end_utc)]) rest
               else costs_utc_loop env start_date_utc end_date_utc costs_utc rest))"

definition fetch_electricity_cost_utc ::
  "'n env \<Rightarrow> 'n world \<Rightarrow> datetime \<Rightarrow> PriceArea
     \<Rightarrow> (error + 'n ElectricityCost list) \<times> 'n world" where
  "fetch_electricity_cost_utc env w date_utc area =
     (case utc_day date_utc of
        Inl e \<Rightarrow> (Inl e, w)
      | Inr (start_date_utc, end_date_utc) \<Rightarrow>
          (case stockholm_date env start_date_utc of
             Inl e \<Rightarrow> (Inl e, w)
           | Inr start_date_stockholm \<Rightarrow>
               (case stockholm_date env end_date_utc of
                  Inl e \<Rightarrow> (Inl e, w)
                | Inr end_date_stockholm \<Rightarrow>
                    (case fetch_stockholm env w start_date_stockholm end_date_stockholm area of
                       (Inl e, w1) \<Rightarrow> (Inl e, w1)
                     | (Inr costs_stockholm, w1) \<Rightarrow>
                         (costs_utc_loop env start_date_utc end_date_utc [] costs_stockholm,
                          w1)))))"

subsection \<open>The loop over an object store\<close>



section \<open>A mocked upstream: two days of hourly Stockholm-local prices\<close>

text \<open>
  \<^verbatim>\<open>dateutil.parser.parse\<close> on the timestamps the API publishes,
  \<^verbatim>\<open>YYYY-MM-DDTHH:MM:SS+HH:MM\<close>: the fields, and the offset as \<open>tzinfo\<close>. Only this shape
  is read here; any other string is given back as a \<^verbatim>\<open>ParserError\<close>.
\<close>

definition digit_val :: "char \<Rightarrow> int option" where
  "digit_val c =
     (if c = CHR ''0'' then Some 0 else if c = CHR ''1'' then Some 1
      else if c = CHR ''2'' then Some 2 else if c = CHR ''3'' then Some 3
      else if c = CHR ''4'' then Some 4 else if c = CHR ''5'' then Some 5
      else if c = CHR ''6'' then Some 6 else if c = CHR ''7'' then Some 7
      else if c = CHR ''8'' then Some 8 else if c = CHR ''9'' then Some 9 else None)"

fun decimal :: "int \<Rightarrow> string \<Rightarrow> int option" where
  "decimal acc [] = Some acc"
| "decimal acc (c # cs) =
     (case digit_val c of None \<Rightarrow> None | Some v \<Rightarrow> decimal (acc * 10 + v) cs)"

definition slice :: "nat \<Rightarrow> nat \<Rightarrow> string \<Rightarrow> string" where
  "slice i j s = take (j - i) (drop i s)"

definition iso_parse :: "string \<Rightarrow> error + datetime" where
  "iso_parse s =
     (if length s = 25 \<and> slice 4 5 s = ''-'' \<and> slice 7 8 s = ''-'' \<and> slice 10 11 s = ''T''
         \<and> slice 13 14 s = '':'' \<and> slice 16 17 s = '':''
         \<and> (slice 19 20 s = ''+'' \<or> slice 19 20 s = ''-'') \<and> slice 22 23 s = '':''
      then (case (decimal 0 (slice 0 4 s), decimal 0 (slice 5 7 s), decimal 0 (slice 8 10 s),
                  decimal 0 (slice 11 13 s), decimal 0 (slice 14 16 s),
                  decimal 0 (slice 17 19 s), decimal 0 (slice 20 22 s),
                  decimal 0 (slice 23 25 s)) of
              (Some y, Some m, Some d, Some hh, Some mm, Some ss, Some oh, Some om) \<Rightarrow>
                if valid_date \<lparr> year = y, month = m, day = d \<rparr>
                   \<and> hh < 24 \<and> mm < 60 \<and> ss < 60 \<and> oh < 24 \<and> om < 60
                then Inr \<lparr> year = y, month = m, day = d, hour = hh, minute = mm, second = ss,
                           microsecond = 0,
                           tzinfo = Some ((if slice 19 20 s = ''-'' then - 1 else 1)
                                          * (oh * 3600 + om * 60)) \<rparr>
                else Inl ParserError
            | _ \<Rightarrow> Inl ParserError)
      else Inl ParserError)"

text \<open>The local timestamp of hour \<open>h\<close> of a date, at offset +01:00.\<close>

definition local_stamp :: "date \<Rightarrow> int \<Rightarrow> string" where
  "local_stamp d h =
     zero_pad 4 (year d) @ ''-'' @ zero_pad 2 (month d) @ ''-'' @ zero_pad 2 (day d)
       @ ''T'' @ zero_pad 2 h @ '':00:00+01:00''"

text \<open>
  The item of hour \<open>h\<close>: it ends where the next hour starts, the last one at midnight of
  the next date. The price tells the items apart: \<open>100 * day + h\<close>.
\<close>

definition hourly_item :: "date \<Rightarrow> date \<Rightarrow> int \<Rightarrow> int json" where
  "hourly_item d next h =
     JObject [(''SEK_per_kWh'', JNumber (100 * day d + h)),
              (''EUR_per_kWh'', JNumber h),
              (''EXR'', JNumber 11),
              (''time_start'', JString (local_stamp d h)),
              (''time_end'', JString (if h = 23 then local_stamp next 0
                                        else local_stamp d (h + 1)))]"

definition hourly_day :: "date \<Rightarrow> date \<Rightarrow> int json" where
  "hourly_day d next = JArray (map (hourly_item d next) [0..23])"

definition jan1 :: date where
  "jan1 = \<lparr> year = 2024, month = 1, day = 1 \<rparr>"

definition jan2 :: date where
  "jan2 = \<lparr> year = 2024, month = 1, day = 2 \<rparr>"

definition jan3 :: date where
  "jan3 = \<lparr> year = 2024, month = 1, day = 3 \<rparr>"

definition mock_get :: "string \<Rightarrow> error + int response" where
  "mock_get u =
     (if u = url jan1 SE4 then Inr \<lparr> status_code = 200, body = Some (hourly_day jan1 jan2) \<rparr>
      else if u = url jan2 SE4
      then Inr \<lparr> status_code = 200, body = Some (hourly_day jan2 jan3) \<rparr>
      else Inr \<lparr> status_code = 404, body = None \<rparr>)"

text \<open>Stockholm in winter: one hour ahead of UTC at every instant.\<close>

definition mock_env :: "int env" where
  "mock_env = \<lparr> stockholm_utcoffset = (\<lambda>t. 3600), parser_parse = iso_parse,
                system_utcoffset = (\<lambda>dt. 0), requests_get = mock_get \<rparr>"

definition empty_world :: "int world" where
  "empty_world = \<lparr> fs = Map.empty, requested = [], calls = [] \<rparr>"

definition date_example :: datetime where
  "date_example = \<lparr> year = 2024, month = 1, day = 1, hour = 0, minute = 0, second = 0,
                    microsecond = 0, tzinfo = None \<rparr>"

section \<open>Predicates used by the statements\<close>

definition is_regular :: "'n node option \<Rightarrow> bool" where
  "is_regular x = (case x of Some (RegularFile _) \<Rightarrow> True | _ \<Rightarrow> False)"

text \<open>No path from the first segment of \<open>p\<close> down to \<open>p\<close> itself is a regular file.\<close>

definition no_file_in_the_way :: "'n filesystem \<Rightarrow> path \<Rightarrow> bool" where
  "no_file_in_the_way f p \<longleftrightarrow>
     list_all (\<lambda>k. \<not> is_regular (f (take k p))) [1..<Suc (length p)]"

text \<open>
  The UTC instants of an interval's two timestamps, for an interval whose timestamps both
  parse and convert (\<open>converts\<close>); \<open>0\<close> stands in otherwise and is never used then.
\<close>

definition converts :: "'n env \<Rightarrow> 'n ElectricityCost \<Rightarrow> bool" where
  "converts env c \<longleftrightarrow>
     (case parse_utc env (time_start c) of
        Inl _ \<Rightarrow> False
      | Inr _ \<Rightarrow> (case parse_utc env (time_end c) of Inl _ \<Rightarrow> False | Inr _ \<Rightarrow> True))"

definition start_utc :: "'n env \<Rightarrow> 'n ElectricityCost \<Rightarrow> instant" where
  "start_utc env c = (case parse_utc env (time_start c) of Inr t \<Rightarrow> t | Inl _ \<Rightarrow> 0)"

definition end_utc :: "'n env \<Rightarrow> 'n ElectricityCost \<Rightarrow> instant" where
  "end_utc env c = (case parse_utc env (time_end c) of Inr t \<Rightarrow> t | Inl _ \<Rightarrow> 0)"

text \<open>
  The specification's step 5: the interval with its two timestamps replaced by the
  ISO-8601 form of their UTC instants.
\<close>

definition restamp :: "'n env \<Rightarrow> 'n ElectricityCost \<Rightarrow> 'n ElectricityCost" where
  "restamp env c =
     replace_times c (isoformat_utc (start_utc env c)) (isoformat_utc (end_utc env c))"

section \<open>Small worlds for the statements' instances\<close>

definition item :: "int \<Rightarrow> string \<Rightarrow> string \<Rightarrow> int json" where
  "item p ts te =
     JObject [(''SEK_per_kWh'', JNumber p), (''EUR_per_kWh'', JNumber (p + 1)),
              (''EXR'', JNumber 11), (''time_start'', JString ts), (''time_end'', JString te)]"

text \<open>
  Two cached days around the window of 2024-01-01 UTC. The first interval ends at
  midnight UTC exactly, the third starts at 23:59:59 UTC exactly.
\<close>

definition boundary_jan1 :: "int json" where
  "boundary_jan1 =
     JArray [item 1 ''2024-01-01T00:00:00+01:00'' ''2024-01-01T01:00:00+01:00'',
             item 2 ''2024-01-01T01:00:00+01:00'' ''2024-01-01T02:00:00+01:00'']"

definition boundary_jan2 :: "int json" where
  "boundary_jan2 =
     JArray [item 3 ''2024-01-02T00:59:59+01:00'' ''2024-01-02T01:59:59+01:00'',
             item 4 ''2024-01-02T01:00:00+01:00'' ''2024-01-02T02:00:00+01:00'']"

definition cached_world :: "int world" where
  "cached_world =
     \<lparr> fs = [[''cache''] \<mapsto> Directory,
             [''cache'', ''2024''] \<mapsto> Directory,
             [''cache'', ''2024'', ''01''] \<mapsto> Directory,
             [''cache'', ''2024'', ''01'', ''01_SE4.json''] \<mapsto> RegularFile (Some boundary_jan1),
             [''cache'', ''2024'', ''01'', ''02_SE4.json''] \<mapsto> RegularFile (Some boundary_jan2)],
       requested = [], calls = [] \<rparr>"

text \<open>An upstream that answers every request with status 201 and an empty JSON array.\<close>

definition env_201 :: "int env" where
  "env_201 = \<lparr> stockholm_utcoffset = (\<lambda>t. 3600), parser_parse = iso_parse,
               system_utcoffset = (\<lambda>dt. 0),
               requests_get = (\<lambda>u. Inr \<lparr> status_code = 201, body = Some (JArray []) \<rparr>) \<rparr>"

text \<open>An upstream that answers every request with status 200 and the first cached day.\<close>

definition env_boundary :: "int env" where
  "env_boundary = \<lparr> stockholm_utcoffset = (\<lambda>t. 3600), parser_parse = iso_parse,
                    system_utcoffset = (\<lambda>dt. 0),
                    requests_get = (\<lambda>u. Inr \<lparr> status_code = 200, body = Some boundary_jan1 \<rparr>) \<rparr>"

text \<open>The key-value lists of the two objects of \<open>boundary_jan1\<close>.\<close>

definition boundary_fields :: "(string \<times> int json) list list" where
  "boundary_fields =
     [[(''SEK_per_kWh'', JNumber 1), (''EUR_per_kWh'', JNumber 2), (''EXR'', JNumber 11),
       (''time_start'', JString ''2024-01-01T00:00:00+01:00''),
       (''time_end'', JString ''2024-01-01T01:00:00+01:00'')],
      [(''SEK_per_kWh'', JNumber 2), (''EUR_per_kWh'', JNumber 3), (''EXR'', JNumber 11),
       (''time_start'', JString ''2024-01-01T01:00:00+01:00''),
       (''time_end'', JString ''2024-01-01T02:00:00+01:00'')]]"

text \<open>The last day of the year 999.\<close>

definition dec31_999 :: date where
  "dec31_999 = \<lparr> year = 999, month = 12, day = 31 \<rparr>"

text \<open>An upstream that answers every request with status 500.\<close>

definition env_500 :: "int env" where
  "env_500 = \<lparr> stockholm_utcoffset = (\<lambda>t. 3600), parser_parse = iso_parse,
               system_utcoffset = (\<lambda>dt. 0),
               requests_get = (\<lambda>u. Inr \<lparr> status_code = 500, body = None \<rparr>) \<rparr>"

definition cost_of :: "int \<Rightarrow> string \<Rightarrow> string \<Rightarrow> int ElectricityCost" where
  "cost_of p ts te =
     \<lparr> SEK_per_kWh = JNumber p, EUR_per_kWh = JNumber (p + 1), EXR = JNumber 11,
       time_start = JString ts, time_end = JString te \<rparr>"

text \<open>The four cached intervals as objects, in the order of the two files.\<close>

definition boundary_costs :: "int ElectricityCost list" where
  "boundary_costs =
     [cost_of 1 ''2024-01-01T00:00:00+01:00'' ''2024-01-01T01:00:00+01:00'',
      cost_of 2 ''2024-01-01T01:00:00+01:00'' ''2024-01-01T02:00:00+01:00'',
      cost_of 3 ''2024-01-02T00:59:59+01:00'' ''2024-01-02T01:59:59+01:00'',
      cost_of 4 ''2024-01-02T01:00:00+01:00'' ''2024-01-02T02:00:00+01:00'']"

text \<open>The window of 2024-01-01 UTC, in microseconds since 0001-01-01T00:00:00 UTC.\<close>

definition start_example :: instant where
  "start_example = 63839664000000000"

definition end_example :: instant where
  "end_example = 63839750399000000"

definition date_example_afternoon :: datetime where
  "date_example_afternoon = \<lparr> year = 2024, month = 1, day = 1, hour = 13, minute = 37,
                              second = 59, microsecond = 250000, tzinfo = Some 7200 \<rparr>"

text \<open>
  What the specification's scenario expects for 2024-01-01 UTC: 24 one-hour intervals
  from midnight to midnight UTC. Hours 0 to 22 come from the local hours 1 to 23 of
  2024-01-01 (prices 101 to 123), hour 23 from the local hour 0 of 2024-01-02 (price 200).
\<close>

definition utc_stamp :: "int \<Rightarrow> string" where
  "utc_stamp h = ''2024-01-01T'' @ zero_pad 2 h @ '':00:00+00:00''"

definition expected_item :: "int \<Rightarrow> int ElectricityCost" where
  "expected_item h =
     \<lparr> SEK_per_kWh = JNumber (if h = 23 then 200 else 101 + h),
       EUR_per_kWh = JNumber (if h = 23 then 0 else 1 + h),
       EXR = JNumber 11,
       time_start = JString (utc_stamp h),
       time_end = JString (if h = 23 then ''2024-01-02T00:00:00+00:00''
                           else utc_stamp (h + 1)) \<rparr>"

definition expected_utc :: "int ElectricityCost list" where
  "expected_utc = map expected_item [0..23]"

text \<open>The object that \<^verbatim>\<open>ElectricityCost(**item)\<close> builds from \<open>hourly_item d next h\<close>.\<close>

definition hourly_cost :: "date \<Rightarrow> date \<Rightarrow> int \<Rightarrow> int ElectricityCost" where
  "hourly_cost d next h =
     \<lparr> SEK_per_kWh = JNumber (100 * day d + h), EUR_per_kWh = JNumber h, EXR = JNumber 11,
       time_start = JString (local_stamp d h),
       time_end = JString (if h = 23 then local_stamp next 0 else local_stamp d (h + 1)) \<rparr>"

definition day1_costs :: "int ElectricityCost list" where
  "day1_costs = map (hourly_cost jan1 jan2) [0..23]"

definition day2_costs :: "int ElectricityCost list" where
  "day2_costs = map (hourly_cost jan2 jan3) [0..23]"

text \<open>The instant \<open>k\<close> hours after midnight UTC of 2024-01-01.\<close>

definition hour_instant :: "int \<Rightarrow> instant" where
  "hour_instant k = start_example + k * 3600000000"

section \<open>Decimal formatting: digits and their value\<close>

lemma replicate_2: "replicate 2 x = [x, x]"
  by (simp add: numeral_2_eq_2)

lemma replicate_3: "replicate 3 x = [x, x, x]"
  by (simp add: numeral_3_eq_3)

lemma digit_char_0: "digit_char 0 = CHR ''0''"
  by (simp add: digit_char_def)

lemma digit_char_mod: "digit_char (k mod 10) = digit_char k"
  by (simp add: digit_char_def)

lemma str_nat_small: "m < 10 \<Longrightarrow> str_nat m = [digit_char m]"
  by (simp add: str_nat.simps)

lemma str_nat_step: "10 \<le> m \<Longrightarrow> str_nat m = str_nat (m div 10) @ [digit_char m]"
  by (subst str_nat.simps) (simp add: digit_char_mod)

lemma pad2_nat:
  assumes "m < 100"
  shows "replicate (2 - length (str_nat m)) CHR ''0'' @ str_nat m
           = [digit_char (m div 10), digit_char m]"
proof (cases "m < 10")
  case True
  then show ?thesis by (simp add: str_nat_small digit_char_0 replicate_2 replicate_3)
next
  case False
  then have "m div 10 < 10" using assms by simp
  then show ?thesis using False by (simp add: str_nat_step str_nat_small)
qed

lemma str_nat_2: "10 \<le> m \<Longrightarrow> m < 100 \<Longrightarrow> str_nat m = [digit_char (m div 10), digit_char m]"
  using str_nat_step [of m] str_nat_small [of "m div 10"] by simp

lemma str_nat_3:
  assumes "100 \<le> m" and "m < 1000"
  shows "str_nat m = [digit_char (m div 100), digit_char (m div 10), digit_char m]"
proof -
  have "10 \<le> m div 10" "m div 10 < 100" using assms by auto
  from str_nat_2 [OF this] have "str_nat (m div 10) = [digit_char (m div 100), digit_char (m div 10)]"
    by (simp add: div_mult2_eq [symmetric])
  then show ?thesis using str_nat_step [of m] assms by simp
qed

lemma str_nat_4:
  assumes "1000 \<le> m" and "m < 10000"
  shows "str_nat m = [digit_char (m div 1000), digit_char (m div 100), digit_char (m div 10),
                      digit_char m]"
proof -
  have "100 \<le> m div 10" "m div 10 < 1000" using assms by auto
  from str_nat_3 [OF this]
  have "str_nat (m div 10) = [digit_char (m div 1000), digit_char (m div 100), digit_char (m div 10)]"
    by (simp add: div_mult2_eq [symmetric])
  then show ?thesis using str_nat_step [of m] assms by simp
qed

lemma pad4_nat:
  assumes "m < 10000"
  shows "replicate (4 - length (str_nat m)) CHR ''0'' @ str_nat m
           = [digit_char (m div 1000), digit_char (m div 100), digit_char (m div 10),
              digit_char m]"
proof -
  consider "m < 10" | "10 \<le> m" "m < 100" | "100 \<le> m" "m < 1000" | "1000 \<le> m"
    by linarith
  then show ?thesis
  proof cases
    case 1
    then show ?thesis
      by (simp add: str_nat_small digit_char_0 replicate_3)
  next
    case 2
    then show ?thesis
      by (simp add: str_nat_2 digit_char_0 replicate_2)
  next
    case 3
    then show ?thesis
      by (simp add: str_nat_3 digit_char_0)
  next
    case 4
    then show ?thesis using assms
      by (simp add: str_nat_4)
  qed
qed

lemma zero_pad_2: "0 \<le> n \<Longrightarrow> n < 100 \<Longrightarrow>
   zero_pad 2 n = [digit_char (nat n div 10), digit_char (nat n)]"
  by (simp add: zero_pad_def pad2_nat)

lemma zero_pad_4: "0 \<le> n \<Longrightarrow> n < 10000 \<Longrightarrow>
   zero_pad 4 n = [digit_char (nat n div 1000), digit_char (nat n div 100),
                   digit_char (nat n div 10), digit_char (nat n)]"
  by (simp add: zero_pad_def pad4_nat)

lemma digit_val_digit_char: "digit_val (digit_char k) = Some (int (k mod 10))"
proof -
  have "k mod 10 < 10" by simp
  then have "k mod 10 \<in> {0, 1, 2, 3, 4, 5, 6, 7, 8, 9}" by simp arith
  then have "digit_val (digit_char (k mod 10)) = Some (int (k mod 10))"
    by (elim insertE emptyE) (simp_all add: digit_char_def digit_val_def)
  then show ?thesis by (simp add: digit_char_mod)
qed

lemma decimal_2: "decimal 0 [digit_char a, digit_char b] = Some (int (a mod 10) * 10 + int (b mod 10))"
  by (simp add: digit_val_digit_char)

lemma decimal_4:
  "decimal 0 [digit_char a, digit_char b, digit_char c, digit_char d]
     = Some (((int (a mod 10) * 10 + int (b mod 10)) * 10 + int (c mod 10)) * 10 + int (d mod 10))"
  by (simp add: digit_val_digit_char)

lemma digits_value_2:
  assumes "m < 100"
  shows "int (m div 10 mod 10) * 10 + int (m mod 10) = int m"
proof -
  have a: "m div 10 mod 10 = m div 10" using assms by simp
  have "int (m div 10 mod 10) * 10 + int (m mod 10) = int (m div 10 * 10 + m mod 10)"
    unfolding a by (simp only: of_nat_add of_nat_mult of_nat_numeral)
  also have "\<dots> = int m"
    by (simp only: div_mult_mod_eq)
  finally show ?thesis .
qed

lemma digits_value_4:
  assumes "m < 10000"
  shows "((int (m div 1000 mod 10) * 10 + int (m div 100 mod 10)) * 10 + int (m div 10 mod 10)) * 10
           + int (m mod 10) = int m"
proof -
  have a: "m div 1000 mod 10 = m div 1000" using assms by simp
  have b: "m div 1000 * 10 + m div 100 mod 10 = m div 100"
    using div_mult_mod_eq [of "m div 100" 10] by (simp add: div_mult2_eq [symmetric])
  have c: "m div 100 * 10 + m div 10 mod 10 = m div 10"
    using div_mult_mod_eq [of "m div 10" 10] by (simp add: div_mult2_eq [symmetric])
  have d: "m div 10 * 10 + m mod 10 = m"
    by (rule div_mult_mod_eq)
  have "((int (m div 1000 mod 10) * 10 + int (m div 100 mod 10)) * 10 + int (m div 10 mod 10)) * 10
           + int (m mod 10)
        = int (((m div 1000 * 10 + m div 100 mod 10) * 10 + m div 10 mod 10) * 10 + m mod 10)"
    unfolding a by (simp only: of_nat_add of_nat_mult of_nat_numeral)
  also have "\<dots> = int m"
    by (simp only: b c d)
  finally show ?thesis .
qed

lemma decimal_digits_2:
  "m < 100 \<Longrightarrow> decimal 0 [digit_char (m div 10), digit_char m] = Some (int m)"
  by (simp only: decimal_2 digits_value_2)

lemma decimal_digits_4:
  "m < 10000 \<Longrightarrow> decimal 0 [digit_char (m div 1000), digit_char (m div 100), digit_char (m div 10),
                    digit_char m] = Some (int m)"
  by (simp only: decimal_4 digits_value_4)

lemma decimal_zero_pad_2: "0 \<le> n \<Longrightarrow> n < 100 \<Longrightarrow> decimal 0 (zero_pad 2 n) = Some n"
  by (simp add: zero_pad_2 decimal_digits_2 del: decimal.simps)

lemma decimal_zero_pad_4: "0 \<le> n \<Longrightarrow> n < 10000 \<Longrightarrow> decimal 0 (zero_pad 4 n) = Some n"
  by (simp add: zero_pad_4 decimal_digits_4 del: decimal.simps)

lemma length_zero_pad_2: "0 \<le> n \<Longrightarrow> n < 100 \<Longrightarrow> length (zero_pad 2 n) = 2"
  by (simp add: zero_pad_2)

lemma length_zero_pad_4: "0 \<le> n \<Longrightarrow> n < 10000 \<Longrightarrow> length (zero_pad 4 n) = 4"
  by (simp add: zero_pad_4)

lemma days_in_month_le: "1 \<le> m \<Longrightarrow> m \<le> 12 \<Longrightarrow> days_in_month y m \<le> 31"
proof -
  assume "1 \<le> m" "m \<le> 12"
  then have "m \<in> {1, 2, 3, 4, 5, 6, 7, 8, 9, 10, 11, 12}" by simp arith
  then show ?thesis
    by (elim insertE emptyE) (simp_all add: days_in_month_def DAYS_IN_MONTH_def)
qed

section \<open>Properties of \<open>fetch_electricity_cost\<close>\<close>

lemma fetch_calls: "calls (snd (fetch_electricity_cost env w d area)) = calls w @ [(d, area)]"
  by (simp add: fetch_electricity_cost_def Let_def split: sum.splits prod.splits option.splits)

lemma fetch_cached:
  "path_exists (fs w) (cache_path d area) \<Longrightarrow>
   fetch_electricity_cost env w d area =
     ((case open_read (fs w) (cache_path d area) of
         Inl e \<Rightarrow> Inl e
       | Inr text \<Rightarrow> (case json_load text of Inl e \<Rightarrow> Inl e | Inr j \<Rightarrow> costs_of_data j)),
      w\<lparr> calls := calls w @ [(d, area)] \<rparr>)"
  by (simp add: fetch_electricity_cost_def Let_def path_exists_def split: sum.splits)

lemma fetch_not_200:
  "\<not> path_exists (fs w) (cache_path d area) \<Longrightarrow>
   requests_get env (url d area) = Inr response \<Longrightarrow> status_code response \<noteq> 200 \<Longrightarrow>
   fetch_electricity_cost env w d area =
     (Inl (Exception (''Failed to fetch data: '' @ str_int (status_code response))),
      w\<lparr> calls := calls w @ [(d, area)], requested := requested w @ [url d area] \<rparr>)"
  by (simp add: fetch_electricity_cost_def Let_def path_exists_def)

subsection \<open>\<open>makedirs\<close> succeeds when no regular file is in the way\<close>

lemma no_file_in_the_way_iff:
  "no_file_in_the_way f p \<longleftrightarrow> (\<forall>k. 0 < k \<and> k \<le> length p \<longrightarrow> \<not> is_regular (f (take k p)))"
  unfolding no_file_in_the_way_def list_all_iff
  by (auto simp del: upt_Suc)

lemma makedirs_ok:
  "name \<noteq> [] \<Longrightarrow> no_file_in_the_way f name \<Longrightarrow>
   \<exists>f'. makedirs f name = (None, f') \<and> f' name = Some Directory
        \<and> (\<forall>q. length name < length q \<longrightarrow> f' q = f q)
        \<and> (\<forall>q. f q \<noteq> None \<longrightarrow> f' q = f q)"
proof (induction f name rule: makedirs.induct)
  case (1 f name)
  have nf: "\<not> is_regular (f name)"
    using "1.prems" by (auto simp: no_file_in_the_way_iff dest: spec [of _ "length name"])
  have butlast_take: "butlast name = take (length name - 1) name"
    by (simp add: butlast_conv_take)
  have nfh: "no_file_in_the_way f (dirname name)"
    using "1.prems"(2) unfolding no_file_in_the_way_iff dirname_def
    by (auto simp: butlast_take min_def)
  show ?case
  proof (cases "dirname name \<noteq> [] \<and> \<not> path_exists f (dirname name)")
    case True
    from "1.IH" [OF True] True nfh obtain f1 where
      f1: "makedirs f (dirname name) = (None, f1)" "f1 (dirname name) = Some Directory"
          "\<forall>q. length (dirname name) < length q \<longrightarrow> f1 q = f q"
          "\<forall>q. f q \<noteq> None \<longrightarrow> f1 q = f q"
      by blast
    have len: "length (dirname name) < length name"
      using "1.prems"(1) by (simp add: dirname_def)
    then have same: "f1 name = f name" using f1(3) by blast
    show ?thesis
    proof (cases "f name")
      case None
      then have "mkdir f1 name = Inr (f1(name \<mapsto> Directory))"
        using same f1(2) True "1.prems"(1) by (simp add: mkdir_def)
      then have "makedirs f name = (None, f1(name \<mapsto> Directory))"
        using True f1(1) by (subst makedirs.simps) simp
      moreover have "\<forall>q. length name < length q \<longrightarrow> (f1(name \<mapsto> Directory)) q = f q"
        using f1(3) len by auto
      moreover have "\<forall>q. f q \<noteq> None \<longrightarrow> (f1(name \<mapsto> Directory)) q = f q"
        using f1(4) None by auto
      ultimately show ?thesis by simp
    next
      case (Some n)
      then have d: "f name = Some Directory"
        using nf by (cases n) (auto simp: is_regular_def)
      then have "mkdir f1 name = Inl FileExistsError"
        using same by (simp add: mkdir_def)
      then have "makedirs f name = (None, f1)"
        using True f1(1) same d by (subst makedirs.simps) simp
      moreover have "\<forall>q. length name < length q \<longrightarrow> f1 q = f q"
        using f1(3) len by auto
      ultimately show ?thesis using same d f1(4) by simp
    qed
  next
    case False
    then have r: "(if dirname name \<noteq> [] \<and> \<not> path_exists f (dirname name)
               then makedirs f (dirname name) else (None, f)) = (None, f)"
      by (simp only: False if_False)
    have parent: "dirname name \<noteq> [] \<Longrightarrow> f (dirname name) = Some Directory"
    proof -
      assume ne: "dirname name \<noteq> []"
      with False obtain n where n: "f (dirname name) = Some n"
        by (auto simp: path_exists_def)
      have "0 < length (dirname name) \<and> length (dirname name) \<le> length (dirname name)"
        using ne by simp
      with nfh have "\<not> is_regular (f (take (length (dirname name)) (dirname name)))"
        unfolding no_file_in_the_way_iff by blast
      with n show ?thesis by (cases n) (auto simp: is_regular_def)
    qed
    show ?thesis
    proof (cases "f name")
      case None
      then have "mkdir f name = Inr (f(name \<mapsto> Directory))"
        using parent "1.prems"(1) by (auto simp: mkdir_def)
      then have "makedirs f name = (None, f(name \<mapsto> Directory))"
        using r by (subst makedirs.simps) (simp del: makedirs.simps)
      then show ?thesis using None by auto
    next
      case (Some n)
      then have d: "f name = Some Directory"
        using nf by (cases n) (auto simp: is_regular_def)
      then have "mkdir f name = Inl FileExistsError"
        by (simp add: mkdir_def)
      then have "makedirs f name = (None, f)"
        using r d by (subst makedirs.simps) simp
      then show ?thesis using d by simp
    qed
  qed
qed

subsection \<open>Which errors the cache miss path can raise, and what status 200 persists\<close>

lemma mkdir_error: "mkdir f p = Inl e \<Longrightarrow> e \<noteq> Exception m"
  by (auto simp: mkdir_def split: option.splits if_splits node.splits)

lemma makedirs_error: "makedirs f p = (Some e, f1) \<Longrightarrow> e \<noteq> Exception m"
proof (induction f p arbitrary: e f1 rule: makedirs.induct)
  case (1 f name)
  show ?case
  proof (cases "dirname name \<noteq> [] \<and> \<not> path_exists f (dirname name)")
    case True
    obtain r0 f0 where r: "makedirs f (dirname name) = (r0, f0)" by (cases "makedirs f (dirname name)")
    show ?thesis
      using "1.prems" "1.IH" [OF True, of _ f0] True r
      by (subst (asm) makedirs.simps)
         (auto split: option.splits sum.splits if_splits dest: mkdir_error)
  next
    case False
    then have r: "(if dirname name \<noteq> [] \<and> \<not> path_exists f (dirname name)
               then makedirs f (dirname name) else (None, f)) = (None, f)"
      by (simp only: False if_False)
    show ?thesis
      using "1.prems" r
      by (subst (asm) makedirs.simps)
         (auto split: option.splits sum.splits if_splits dest: mkdir_error)
  qed
qed

lemma open_write_dump_error: "open_write_dump f p data = Inl e \<Longrightarrow> e \<noteq> Exception m"
  by (auto simp: open_write_dump_def split: option.splits if_splits node.splits)

lemma costs_of_items_error: "costs_of_items items = Inl e \<Longrightarrow> e = TypeError"
  by (induction items arbitrary: e)
     (auto simp: ElectricityCost_of_item_def split: sum.splits json.splits if_splits)

lemma costs_of_data_error: "costs_of_data data = Inl e \<Longrightarrow> e = TypeError"
  by (auto simp: costs_of_data_def split: json.splits if_splits dest: costs_of_items_error)

lemma fetch_200_no_Exception:
  assumes "\<not> path_exists (fs w) (cache_path d area)"
      and "requests_get env (url d area) = Inr response"
      and "status_code response = 200"
  shows "fst (fetch_electricity_cost env w d area) \<noteq> Inl (Exception m)"
  using assms
  by (auto simp: fetch_electricity_cost_def Let_def json_load_def
           split: sum.splits option.splits prod.splits
           dest: makedirs_error open_write_dump_error costs_of_data_error)

lemma fetch_200_persists:
  assumes miss: "\<not> path_exists (fs w) (cache_path d area)"
      and get: "requests_get env (url d area) = Inr response"
      and ok: "status_code response = 200"
      and body: "body response = Some data"
      and free: "no_file_in_the_way (fs w) (dirname (cache_path d area))"
  shows "fst (fetch_electricity_cost env w d area) = costs_of_data data
         \<and> fs (snd (fetch_electricity_cost env w d area)) (cache_path d area)
             = Some (RegularFile (Some data))
         \<and> (\<forall>q. fs w q \<noteq> None \<longrightarrow> fs (snd (fetch_electricity_cost env w d area)) q = fs w q)"
proof -
  let ?p = "cache_path d area"
  have ne: "dirname ?p \<noteq> []" by (simp add: cache_path_def dirname_def)
  from makedirs_ok [OF ne free] obtain f1 where
    f1: "makedirs (fs w) (dirname ?p) = (None, f1)" "f1 (dirname ?p) = Some Directory"
        "\<forall>q. length (dirname ?p) < length q \<longrightarrow> f1 q = fs w q"
        "\<forall>q. fs w q \<noteq> None \<longrightarrow> f1 q = fs w q"
    by blast
  have "length (dirname ?p) < length ?p" by (simp add: cache_path_def dirname_def)
  with f1(3) miss have none: "f1 ?p = None" by (simp add: path_exists_def)
  have pne: "?p \<noteq> []" by (simp add: cache_path_def)
  have w: "open_write_dump f1 ?p data = Inr (f1(?p \<mapsto> RegularFile (Some data)))"
    using none f1(2) ne pne by (simp add: open_write_dump_def)
  have "fetch_electricity_cost env w d area =
          (costs_of_data data,
           w\<lparr> calls := calls w @ [(d, area)], requested := requested w @ [url d area],
              fs := f1(?p \<mapsto> RegularFile (Some data)) \<rparr>)"
    using miss get ok body f1(1) w
    by (simp add: fetch_electricity_cost_def Let_def path_exists_def json_load_def)
  then show ?thesis using f1(4) miss by (auto simp: path_exists_def)
qed

subsection \<open>Concrete facts about the small worlds\<close>

lemmas format_simps = zero_pad_def str_nat.simps digit_char_def

lemmas strftime_simps = strftime_Y_def strftime_m_def strftime_d_def str_int_def

lemma cache_path_jan1: "cache_path jan1 SE4 = [''cache'', ''2024'', ''01'', ''01_SE4.json'']"
  by (simp add: cache_path_def jan1_def strftime_simps format_simps)

lemma cache_path_jan2: "cache_path jan2 SE4 = [''cache'', ''2024'', ''01'', ''02_SE4.json'']"
  by (simp add: cache_path_def jan2_def strftime_simps format_simps)

lemma url_jan1:
  "url jan1 SE4 = ''https://www.elprisetjustnu.se/api/v1/prices/2024/01-01_SE4.json''"
  by (simp add: url_def jan1_def strftime_simps format_simps)

lemma url_jan2:
  "url jan2 SE4 = ''https://www.elprisetjustnu.se/api/v1/prices/2024/01-02_SE4.json''"
  by (simp add: url_def jan2_def strftime_simps format_simps)

lemma str_int_201: "str_int 201 = ''201''"
  by (simp add: str_int_def format_simps)

lemma str_int_500: "str_int 500 = ''500''"
  by (simp add: str_int_def format_simps)

lemma requested_empty: "requested empty_world = []"
  by (simp add: empty_world_def)

lemma valid_jan1: "valid_date jan1"
  by (simp add: valid_date_def jan1_def days_in_month_def DAYS_IN_MONTH_def)

lemma empty_miss: "\<not> path_exists (fs empty_world) p"
  by (simp add: empty_world_def path_exists_def)

lemma empty_free: "no_file_in_the_way (fs empty_world) p"
  by (simp add: no_file_in_the_way_iff empty_world_def is_regular_def)

lemma mock_get_jan1:
  "requests_get mock_env (url jan1 SE4)
     = Inr \<lparr> status_code = 200, body = Some (hourly_day jan1 jan2) \<rparr>"
  by (simp add: mock_env_def mock_get_def)

lemma cached_jan1:
  "fs cached_world (cache_path jan1 SE4) = Some (RegularFile (Some boundary_jan1))"
  by (simp add: cached_world_def cache_path_jan1)

lemma cached_jan2:
  "fs cached_world (cache_path jan2 SE4) = Some (RegularFile (Some boundary_jan2))"
  by (simp add: cached_world_def cache_path_jan2)

section \<open>Properties of \<open>fetch_electricity_cost_utc\<close>\<close>

lemma costs_utc_loop_filter:
  "\<forall>c\<in>set cs. converts env c \<Longrightarrow>
   costs_utc_loop env su eu acc cs
     = Inr (acc @ map (restamp env) (filter (\<lambda>c. end_utc env c > su \<and> start_utc env c \<le> eu) cs))"
proof (induction cs arbitrary: acc)
  case Nil
  then show ?case by simp
next
  case (Cons c cs)
  from Cons.prems obtain s e where
    se: "parse_utc env (time_start c) = Inr s" "parse_utc env (time_end c) = Inr e"
    by (auto simp: converts_def split: sum.splits)
  have rest: "\<forall>c\<in>set cs. converts env c" using Cons.prems by simp
  show ?case
    using se Cons.IH [OF rest]
    by (simp add: start_utc_def end_utc_def restamp_def)
qed

lemma utc_day_window:
  "utc_day date_utc = Inr (su, eu) \<Longrightarrow>
   su = (ymd2ord (year date_utc) (month date_utc) (day date_utc) - 1) * US_PER_DAY
   \<and> eu = su + 24 * 3600 * US_PER_SECOND - US_PER_SECOND"
  by (auto simp: utc_day_def datetime_utc_def add_timedelta_def US_PER_DAY_def US_PER_SECOND_def
           split: if_splits sum.splits)

lemma fetch_utc_unfold:
  assumes "utc_day date_utc = Inr (su, eu)"
      and "stockholm_date env su = Inr d1" and "stockholm_date env eu = Inr d2"
  shows "fetch_electricity_cost_utc env w date_utc area =
           (case fetch_stockholm env w d1 d2 area of
              (Inl e, w1) \<Rightarrow> (Inl e, w1)
            | (Inr cs, w1) \<Rightarrow> (costs_utc_loop env su eu [] cs, w1))"
  using assms by (simp add: fetch_electricity_cost_utc_def)

lemma fetch_stockholm_calls:
  "calls (snd (fetch_stockholm env w d1 d2 area)) =
     (if d1 = d2 then calls w @ [(d1, area)]
      else case fst (fetch_electricity_cost env w d1 area) of
             Inl e \<Rightarrow> calls w @ [(d1, area)]
           | Inr cs \<Rightarrow> calls w @ [(d1, area), (d2, area)])"
proof (cases "d1 = d2")
  case True
  then show ?thesis by (simp add: fetch_stockholm_def fetch_calls)
next
  case False
  obtain r1 w1 where f1: "fetch_electricity_cost env w d1 area = (r1, w1)"
    by (cases "fetch_electricity_cost env w d1 area")
  obtain r2 w2 where f2: "fetch_electricity_cost env w1 d2 area = (r2, w2)"
    by (cases "fetch_electricity_cost env w1 d2 area")
  have c1: "calls w1 = calls w @ [(d1, area)]"
    using fetch_calls [of env w d1 area] f1 by simp
  have c2: "calls w2 = calls w1 @ [(d2, area)]"
    using fetch_calls [of env w1 d2 area] f2 by simp
  show ?thesis
    using False f1 f2 c1 c2
    by (cases r1; cases r2) (simp_all add: fetch_stockholm_def)
qed

lemma fetch_requested:
  "requested (snd (fetch_electricity_cost env w d area)) =
     (if path_exists (fs w) (cache_path d area) then requested w
      else requested w @ [url d area])"
  by (simp add: fetch_electricity_cost_def Let_def split: sum.splits prod.splits option.splits)

subsection \<open>The window of 2024-01-01 UTC and the cached boundary intervals\<close>

lemmas calendar_simps = ymd2ord_def days_before_year_def days_before_month_def
  days_in_month_def DAYS_IN_MONTH_def DAYS_BEFORE_MONTH_def is_leap_def
  valid_date_def MAXORDINAL_def US_PER_DAY_def US_PER_SECOND_def in_range_def Let_def

lemmas parse_simps = parse_utc_def parse_field_def astimezone_utc_def naive_us_def
  iso_parse_def slice_def digit_val_def

lemma ord2ymd_jan1: "ord2ymd 738886 = \<lparr> year = 2024, month = 1, day = 1 \<rparr>"
  by code_simp

lemma ord2ymd_jan2: "ord2ymd 738887 = \<lparr> year = 2024, month = 1, day = 2 \<rparr>"
  by code_simp

lemma utc_day_example: "utc_day date_example = Inr (start_example, end_example)"
  by (simp add: utc_day_def date_example_def datetime_utc_def add_timedelta_def
                start_example_def end_example_def calendar_simps)

lemma stockholm_start:
  "stockholm_utcoffset env start_example = 3600 \<Longrightarrow> stockholm_date env start_example = Inr jan1"
  by (simp add: stockholm_date_def start_example_def jan1_def ord2ymd_jan1 calendar_simps)

lemma stockholm_end:
  "stockholm_utcoffset env end_example = 3600 \<Longrightarrow> stockholm_date env end_example = Inr jan2"
  by (simp add: stockholm_date_def end_example_def jan2_def ord2ymd_jan2 calendar_simps)

lemma mock_offset: "stockholm_utcoffset mock_env t = 3600"
  by (simp add: mock_env_def)

lemma env_500_offset: "stockholm_utcoffset env_500 t = 3600"
  by (simp add: env_500_def)

lemma jan1_jan2: "jan1 \<noteq> jan2"
  by (simp add: jan1_def jan2_def)

lemma mock_parse: "parser_parse mock_env = iso_parse"
  by (simp add: mock_env_def)

lemma parse_boundary:
  "parse_utc mock_env (JString ''2024-01-01T00:00:00+01:00'') = Inr 63839660400000000"
  "parse_utc mock_env (JString ''2024-01-01T01:00:00+01:00'') = Inr 63839664000000000"
  "parse_utc mock_env (JString ''2024-01-01T02:00:00+01:00'') = Inr 63839667600000000"
  "parse_utc mock_env (JString ''2024-01-02T00:59:59+01:00'') = Inr 63839750399000000"
  "parse_utc mock_env (JString ''2024-01-02T01:59:59+01:00'') = Inr 63839753999000000"
  "parse_utc mock_env (JString ''2024-01-02T01:00:00+01:00'') = Inr 63839750400000000"
  "parse_utc mock_env (JString ''2024-01-02T02:00:00+01:00'') = Inr 63839754000000000"
  by (simp_all add: parse_simps mock_parse calendar_simps)

lemmas pad_simps = zero_pad_2 zero_pad_4 digit_char_def

lemma isoformat_utc_unfold:
  "isoformat_utc t =
     zero_pad 4 (year (ord2ymd (t div US_PER_DAY + 1))) @ ''-''
       @ zero_pad 2 (month (ord2ymd (t div US_PER_DAY + 1))) @ ''-''
       @ zero_pad 2 (day (ord2ymd (t div US_PER_DAY + 1)))
       @ ''T'' @ zero_pad 2 ((t mod US_PER_DAY) div US_PER_SECOND div 3600)
       @ '':'' @ zero_pad 2 ((t mod US_PER_DAY) div US_PER_SECOND mod 3600 div 60)
       @ '':'' @ zero_pad 2 ((t mod US_PER_DAY) div US_PER_SECOND mod 60)
       @ (if t mod US_PER_SECOND \<noteq> 0 then ''.'' @ zero_pad 6 (t mod US_PER_SECOND) else [])
       @ ''+00:00''"
  unfolding isoformat_utc_def Let_def ..

lemma iso_boundary:
  "isoformat_utc 63839664000000000 = ''2024-01-01T00:00:00+00:00''"
  "isoformat_utc 63839667600000000 = ''2024-01-01T01:00:00+00:00''"
  "isoformat_utc 63839750399000000 = ''2024-01-01T23:59:59+00:00''"
  "isoformat_utc 63839753999000000 = ''2024-01-02T00:59:59+00:00''"
  by (simp_all add: isoformat_utc_unfold US_PER_DAY_def US_PER_SECOND_def ord2ymd_jan1
                    ord2ymd_jan2 pad_simps)

lemmas decode_simps = costs_of_data_def ElectricityCost_of_item_def field_names_def
  lookup_field_def

lemma costs_boundary_jan1: "costs_of_data boundary_jan1 = Inr (take 2 boundary_costs)"
  by (simp add: boundary_jan1_def item_def boundary_costs_def cost_of_def decode_simps)

lemma costs_boundary_jan2: "costs_of_data boundary_jan2 = Inr (drop 2 boundary_costs)"
  by (simp add: boundary_jan2_def item_def boundary_costs_def cost_of_def decode_simps)

lemma fetch_cached_file:
  "fs w (cache_path d area) = Some (RegularFile (Some j)) \<Longrightarrow>
   fetch_electricity_cost env w d area = (costs_of_data j, w\<lparr> calls := calls w @ [(d, area)] \<rparr>)"
  by (simp add: fetch_electricity_cost_def Let_def path_exists_def open_read_def json_load_def)

lemma fetch_stockholm_boundary:
  "fetch_stockholm mock_env cached_world jan1 jan2 SE4
     = (Inr boundary_costs, cached_world\<lparr> calls := [(jan1, SE4), (jan2, SE4)] \<rparr>)"
proof -
  have c: "calls cached_world = []" by (simp add: cached_world_def)
  have 1: "fetch_electricity_cost mock_env cached_world jan1 SE4
             = (Inr (take 2 boundary_costs), cached_world\<lparr> calls := [(jan1, SE4)] \<rparr>)"
    using fetch_cached_file [OF cached_jan1, of mock_env] by (simp add: costs_boundary_jan1 c)
  have "fs (cached_world\<lparr> calls := [(jan1, SE4)] \<rparr>) (cache_path jan2 SE4)
          = Some (RegularFile (Some boundary_jan2))"
    using cached_jan2 by simp
  from fetch_cached_file [OF this, of mock_env]
  have 2: "fetch_electricity_cost mock_env (cached_world\<lparr> calls := [(jan1, SE4)] \<rparr>) jan2 SE4
             = (Inr (drop 2 boundary_costs), cached_world\<lparr> calls := [(jan1, SE4), (jan2, SE4)] \<rparr>)"
    by (simp add: costs_boundary_jan2)
  show ?thesis
    using jan1_jan2 by (simp add: fetch_stockholm_def 1 2 del: take_Suc_Cons drop_Suc_Cons)
qed

lemma boundary_converts: "\<forall>c\<in>set boundary_costs. converts mock_env c"
  by (simp add: boundary_costs_def cost_of_def converts_def parse_boundary)

lemma boundary_start_utc:
  "map (start_utc mock_env) boundary_costs
     = [63839660400000000, 63839664000000000, 63839750399000000, 63839750400000000]"
  by (simp add: boundary_costs_def cost_of_def start_utc_def parse_boundary)

lemma boundary_end_utc:
  "map (end_utc mock_env) boundary_costs
     = [63839664000000000, 63839667600000000, 63839753999000000, 63839754000000000]"
  by (simp add: boundary_costs_def cost_of_def end_utc_def parse_boundary)

lemma boundary_loop:
  "costs_utc_loop mock_env start_example end_example [] boundary_costs =
     Inr [cost_of 2 ''2024-01-01T00:00:00+00:00'' ''2024-01-01T01:00:00+00:00'',
          cost_of 3 ''2024-01-01T23:59:59+00:00'' ''2024-01-02T00:59:59+00:00'']"
  by (simp add: boundary_costs_def cost_of_def parse_boundary iso_boundary replace_times_def
                start_example_def end_example_def)

lemma calls_cached: "calls cached_world = []"
  by (simp add: cached_world_def)

subsection \<open>The loop over the object store computes what the loop over values does\<close>


subsection \<open>The mocked days: decoding, parsing and formatting hour by hour\<close>

lemma item_decodes: "ElectricityCost_of_item (hourly_item d n h) = Inr (hourly_cost d n h)"
  by (simp add: hourly_item_def hourly_cost_def ElectricityCost_of_item_def field_names_def
                lookup_field_def)

lemma costs_of_items_map:
  "(\<And>x. ElectricityCost_of_item (f x) = Inr (g x)) \<Longrightarrow>
   costs_of_items (map f xs) = Inr (map g xs)"
  by (induction xs) simp_all

lemma hourly_day_decodes: "costs_of_data (hourly_day d n) = Inr (map (hourly_cost d n) [0..23])"
  unfolding hourly_day_def costs_of_data_def json.case
  by (rule costs_of_items_map) (rule item_decodes)

lemma hour_cases:
  "0 \<le> h \<Longrightarrow> h \<le> 23 \<Longrightarrow>
   h \<in> {0, 1, 2, 3, 4, 5, 6, 7, 8, 9, 10, 11, 12, 13, 14, 15, 16, 17, 18, 19, 20, 21, 22, 23 :: int}"
  by simp arith

lemmas stamp_simps = local_stamp_def jan1_def jan2_def jan3_def date.simps pad_simps

lemma parse_day1:
  assumes "0 \<le> h" and "h \<le> 23"
  shows "parse_utc mock_env (JString (local_stamp jan1 h)) = Inr (hour_instant (h - 1))"
  using hour_cases [OF assms]
  by (elim insertE emptyE)
     (simp_all add: stamp_simps parse_simps mock_parse calendar_simps hour_instant_def
                    start_example_def)

lemma parse_day2:
  assumes "0 \<le> h" and "h \<le> 23"
  shows "parse_utc mock_env (JString (local_stamp jan2 h)) = Inr (hour_instant (h + 23))"
  using hour_cases [OF assms]
  by (elim insertE emptyE)
     (simp_all add: stamp_simps parse_simps mock_parse calendar_simps hour_instant_def
                    start_example_def)

lemma parse_day3: "parse_utc mock_env (JString (local_stamp jan3 0)) = Inr (hour_instant 47)"
  by (simp add: stamp_simps parse_simps mock_parse calendar_simps hour_instant_def
                start_example_def)

lemma iso_hour:
  assumes "0 \<le> k" and "k \<le> 23"
  shows "isoformat_utc (hour_instant k) = utc_stamp k"
  using hour_cases [OF assms]
  by (elim insertE emptyE)
     (simp_all add: hour_instant_def start_example_def utc_stamp_def isoformat_utc_unfold
                    US_PER_DAY_def US_PER_SECOND_def ord2ymd_jan1 pad_simps)

lemma iso_hour_24: "isoformat_utc (hour_instant 24) = ''2024-01-02T00:00:00+00:00''"
  by (simp add: hour_instant_def start_example_def isoformat_utc_unfold
                US_PER_DAY_def US_PER_SECOND_def ord2ymd_jan2 pad_simps)

lemma hour_after_start: "start_example < hour_instant k \<longleftrightarrow> 0 < k"
  by (simp add: hour_instant_def)

lemma hour_before_end: "hour_instant k \<le> end_example \<longleftrightarrow> k \<le> 23"
  by (simp add: hour_instant_def start_example_def end_example_def) arith

subsection \<open>Two fetches from the mocked upstream, into an empty cache\<close>

lemma mkdir_only_dirs: "mkdir f p = Inr f2 \<Longrightarrow> f2 = f(p \<mapsto> Directory)"
  by (auto simp: mkdir_def split: option.splits if_splits node.splits)

lemma makedirs_only_dirs:
  "makedirs f p = (r, f') \<Longrightarrow> f' q = f q \<or> f' q = Some Directory"
proof (induction f p arbitrary: r f' rule: makedirs.induct)
  case (1 f name)
  show ?case
  proof (cases "dirname name \<noteq> [] \<and> \<not> path_exists f (dirname name)")
    case True
    obtain r0 f0 where r: "makedirs f (dirname name) = (r0, f0)"
      by (cases "makedirs f (dirname name)")
    from "1.IH" [OF True r] have f0: "f0 q = f q \<or> f0 q = Some Directory" .
    show ?thesis
      using "1.prems" True r f0
      by (subst (asm) makedirs.simps)
         (auto split: option.splits sum.splits if_splits dest!: mkdir_only_dirs)
  next
    case False
    then have r: "(if dirname name \<noteq> [] \<and> \<not> path_exists f (dirname name)
               then makedirs f (dirname name) else (None, f)) = (None, f)"
      by (simp only: False if_False)
    show ?thesis
      using "1.prems" r
      by (subst (asm) makedirs.simps)
         (auto split: option.splits sum.splits if_splits dest!: mkdir_only_dirs)
  qed
qed

lemma fetch_200_world:
  assumes miss: "\<not> path_exists (fs w) (cache_path d area)"
      and get: "requests_get env (url d area) = Inr response"
      and ok: "status_code response = 200"
      and body: "body response = Some data"
      and free: "no_file_in_the_way (fs w) (dirname (cache_path d area))"
  shows "\<exists>f1. fetch_electricity_cost env w d area =
               (costs_of_data data,
                w\<lparr> calls := calls w @ [(d, area)], requested := requested w @ [url d area],
                   fs := f1(cache_path d area \<mapsto> RegularFile (Some data)) \<rparr>)
             \<and> (\<forall>q. length q = 4 \<longrightarrow> f1 q = fs w q)
             \<and> (\<forall>q. f1 q = fs w q \<or> f1 q = Some Directory)"
proof -
  let ?p = "cache_path d area"
  have ne: "dirname ?p \<noteq> []" by (simp add: cache_path_def dirname_def)
  from makedirs_ok [OF ne free] obtain f1 where
    f1: "makedirs (fs w) (dirname ?p) = (None, f1)" "f1 (dirname ?p) = Some Directory"
        "\<forall>q. length (dirname ?p) < length q \<longrightarrow> f1 q = fs w q"
    by blast
  have len: "length (dirname ?p) = 3" "length ?p = 4" by (simp_all add: cache_path_def dirname_def)
  with f1(3) miss have none: "f1 ?p = None" by (simp add: path_exists_def)
  have pne: "?p \<noteq> []" by (simp add: cache_path_def)
  have wr: "open_write_dump f1 ?p data = Inr (f1(?p \<mapsto> RegularFile (Some data)))"
    using none f1(2) ne pne by (simp add: open_write_dump_def)
  have "fetch_electricity_cost env w d area =
          (costs_of_data data,
           w\<lparr> calls := calls w @ [(d, area)], requested := requested w @ [url d area],
              fs := f1(?p \<mapsto> RegularFile (Some data)) \<rparr>)"
    using miss get ok body f1(1) wr
    by (simp add: fetch_electricity_cost_def Let_def path_exists_def json_load_def)
  moreover have "\<forall>q. length q = 4 \<longrightarrow> f1 q = fs w q"
    using f1(3) len by simp
  moreover have "\<forall>q. f1 q = fs w q \<or> f1 q = Some Directory"
    using makedirs_only_dirs [OF f1(1)] by blast
  ultimately show ?thesis by blast
qed

lemma mock_get_jan2:
  "requests_get mock_env (url jan2 SE4)
     = Inr \<lparr> status_code = 200, body = Some (hourly_day jan2 jan3) \<rparr>"
  by (simp add: mock_env_def mock_get_def url_jan1 url_jan2)

lemma day1_decodes: "costs_of_data (hourly_day jan1 jan2) = Inr day1_costs"
  unfolding day1_costs_def by (rule hourly_day_decodes)

lemma day2_decodes: "costs_of_data (hourly_day jan2 jan3) = Inr day2_costs"
  unfolding day2_costs_def by (rule hourly_day_decodes)

lemma mock_two_fetches:
  "\<exists>w2. fetch_stockholm mock_env empty_world jan1 jan2 SE4 = (Inr (day1_costs @ day2_costs), w2)
        \<and> requested w2 = [url jan1 SE4, url jan2 SE4]
        \<and> calls w2 = [(jan1, SE4), (jan2, SE4)]
        \<and> fs w2 (cache_path jan1 SE4) = Some (RegularFile (Some (hourly_day jan1 jan2)))
        \<and> fs w2 (cache_path jan2 SE4) = Some (RegularFile (Some (hourly_day jan2 jan3)))"
proof -
  let ?p1 = "cache_path jan1 SE4" and ?p2 = "cache_path jan2 SE4"
  have ok: "status_code \<lparr> status_code = 200, body = Some (hourly_day jan1 jan2) \<rparr> = 200"
    and bd: "body \<lparr> status_code = 200, body = Some (hourly_day jan1 jan2) \<rparr>
               = Some (hourly_day jan1 jan2)"
    by simp_all
  from fetch_200_world [OF empty_miss mock_get_jan1 ok bd empty_free]
  obtain f1 where
    one: "fetch_electricity_cost mock_env empty_world jan1 SE4 =
            (costs_of_data (hourly_day jan1 jan2),
             empty_world\<lparr> calls := calls empty_world @ [(jan1, SE4)],
                          requested := requested empty_world @ [url jan1 SE4],
                          fs := f1(?p1 \<mapsto> RegularFile (Some (hourly_day jan1 jan2))) \<rparr>)"
    and f1_4: "\<forall>q. length q = 4 \<longrightarrow> f1 q = fs empty_world q"
    and f1_d: "\<forall>q. f1 q = fs empty_world q \<or> f1 q = Some Directory"
    by blast
  define w1 where
    "w1 = empty_world\<lparr> calls := calls empty_world @ [(jan1, SE4)],
                        requested := requested empty_world @ [url jan1 SE4],
                        fs := f1(?p1 \<mapsto> RegularFile (Some (hourly_day jan1 jan2))) \<rparr>"
  have one': "fetch_electricity_cost mock_env empty_world jan1 SE4 = (Inr day1_costs, w1)"
    unfolding one w1_def day1_decodes ..
  have w1_fs: "fs w1 = f1(?p1 \<mapsto> RegularFile (Some (hourly_day jan1 jan2)))"
    and w1_rq: "requested w1 = [url jan1 SE4]" and w1_cl: "calls w1 = [(jan1, SE4)]"
    by (simp_all add: w1_def empty_world_def)
  have p12: "?p1 \<noteq> ?p2" by (simp add: cache_path_jan1 cache_path_jan2)
  have e: "fs empty_world q = None" for q
    by (simp add: empty_world_def)
  have len2: "length ?p2 = 4" and len1: "length ?p1 = 4"
    by (simp_all add: cache_path_jan1 cache_path_jan2)
  have "f1 ?p2 = None" using f1_4 len2 e by simp
  then have miss2: "\<not> path_exists (fs w1) ?p2"
    using p12 by (simp add: path_exists_def w1_fs)
  have free2: "no_file_in_the_way (fs w1) (dirname ?p2)"
    unfolding no_file_in_the_way_iff
  proof (intro allI impI)
    fix k assume "0 < k \<and> k \<le> length (dirname ?p2)"
    then have l3: "length (take k (dirname ?p2)) \<le> 3"
      by (simp add: cache_path_jan2 dirname_def)
    have "take k (dirname ?p2) \<noteq> ?p1"
    proof
      assume "take k (dirname ?p2) = ?p1"
      then have "length (take k (dirname ?p2)) = length ?p1" by (rule arg_cong)
      then show False using l3 len1 by linarith
    qed
    then have "fs w1 (take k (dirname ?p2)) = f1 (take k (dirname ?p2))"
      by (simp add: w1_fs)
    moreover have "f1 (take k (dirname ?p2)) = None \<or> f1 (take k (dirname ?p2)) = Some Directory"
      using f1_d e by metis
    ultimately show "\<not> is_regular (fs w1 (take k (dirname ?p2)))"
      by (auto simp: is_regular_def)
  qed
  have ok2: "status_code \<lparr> status_code = 200, body = Some (hourly_day jan2 jan3) \<rparr> = 200"
    and bd2: "body \<lparr> status_code = 200, body = Some (hourly_day jan2 jan3) \<rparr>
               = Some (hourly_day jan2 jan3)"
    by simp_all
  from fetch_200_world [OF miss2 mock_get_jan2 ok2 bd2 free2]
  obtain f2 where
    two: "fetch_electricity_cost mock_env w1 jan2 SE4 =
            (costs_of_data (hourly_day jan2 jan3),
             w1\<lparr> calls := calls w1 @ [(jan2, SE4)],
                 requested := requested w1 @ [url jan2 SE4],
                 fs := f2(?p2 \<mapsto> RegularFile (Some (hourly_day jan2 jan3))) \<rparr>)"
    and f2_4: "\<forall>q. length q = 4 \<longrightarrow> f2 q = fs w1 q"
    by blast
  define w2 where
    "w2 = w1\<lparr> calls := calls w1 @ [(jan2, SE4)],
              requested := requested w1 @ [url jan2 SE4],
              fs := f2(?p2 \<mapsto> RegularFile (Some (hourly_day jan2 jan3))) \<rparr>"
  have two': "fetch_electricity_cost mock_env w1 jan2 SE4 = (Inr day2_costs, w2)"
    unfolding two w2_def day2_decodes ..
  have st: "fetch_stockholm mock_env empty_world jan1 jan2 SE4
              = (Inr (day1_costs @ day2_costs), w2)"
    using jan1_jan2 by (simp add: fetch_stockholm_def one' two')
  have "f2 ?p1 = fs w1 ?p1" using f2_4 len1 by blast
  then have file1: "fs w2 ?p1 = Some (RegularFile (Some (hourly_day jan1 jan2)))"
    using p12 by (simp add: w2_def w1_fs)
  have file2: "fs w2 ?p2 = Some (RegularFile (Some (hourly_day jan2 jan3)))"
    by (simp add: w2_def)
  have rq: "requested w2 = [url jan1 SE4, url jan2 SE4]"
    by (simp add: w2_def w1_rq)
  have cl: "calls w2 = [(jan1, SE4), (jan2, SE4)]"
    by (simp add: w2_def w1_cl)
  from st rq cl file1 file2 show ?thesis by blast
qed

subsection \<open>The loop on the two mocked days\<close>

lemma hours_list:
  "[0..23] = [0, 1, 2, 3, 4, 5, 6, 7, 8, 9, 10, 11, 12, 13, 14, 15, 16, 17, 18, 19, 20, 21, 22,
              23 :: int]"
  by (simp add: upto_rec1)

lemma day_jan: "day jan1 = 1" "day jan2 = 2"
  by (simp_all add: jan1_def jan2_def)

lemma mock_loop:
  "costs_utc_loop mock_env start_example end_example [] (day1_costs @ day2_costs) = Inr expected_utc"
  by (simp add: day1_costs_def day2_costs_def hours_list hourly_cost_def expected_utc_def
                expected_item_def day_jan parse_day1 parse_day2 parse_day3 iso_hour iso_hour_24
                hour_after_start hour_before_end replace_times_def)

subsection \<open>What a list of objects with exactly the five fields decodes to\<close>

lemma item_of_fields:
  assumes "distinct (map fst kvs)"
      and "set (map fst kvs) = {''SEK_per_kWh'', ''EUR_per_kWh'', ''EXR'', ''time_start'', ''time_end''}"
  shows "ElectricityCost_of_item (JObject kvs)
           = Inr \<lparr> SEK_per_kWh = the (map_of kvs ''SEK_per_kWh''),
                   EUR_per_kWh = the (map_of kvs ''EUR_per_kWh''),
                   EXR = the (map_of kvs ''EXR''),
                   time_start = the (map_of kvs ''time_start''),
                   time_end = the (map_of kvs ''time_end'') \<rparr>"
proof -
  have names: "set field_names = {''SEK_per_kWh'', ''EUR_per_kWh'', ''EXR'', ''time_start'', ''time_end''}"
    by (simp add: field_names_def)
  have keys: "list_all (\<lambda>k. k \<in> set field_names) (map fst kvs)"
    unfolding list_all_iff names assms(2) [symmetric] by simp
  have present: "map_of kvs k \<noteq> None" if "k \<in> set field_names" for k
    using that unfolding names assms(2) [symmetric] by (simp add: map_of_eq_None_iff)
  then have all: "list_all (\<lambda>k. map_of kvs k \<noteq> None) field_names"
    unfolding list_all_iff by blast
  have look: "lookup_field kvs k = the (map_of kvs k)" if "k \<in> set field_names" for k
    using present [OF that] by (auto simp: lookup_field_def)
  have l: "lookup_field kvs ''SEK_per_kWh'' = the (map_of kvs ''SEK_per_kWh'')"
          "lookup_field kvs ''EUR_per_kWh'' = the (map_of kvs ''EUR_per_kWh'')"
          "lookup_field kvs ''EXR'' = the (map_of kvs ''EXR'')"
          "lookup_field kvs ''time_start'' = the (map_of kvs ''time_start'')"
          "lookup_field kvs ''time_end'' = the (map_of kvs ''time_end'')"
    by (rule look, simp add: field_names_def)+
  show ?thesis
    unfolding ElectricityCost_of_item_def json.case using keys all by (simp only: l simp_thms if_True)
qed

lemma data_of_fields:
  "list_all (\<lambda>kvs. distinct (map fst kvs)
                \<and> set (map fst kvs)
                    = {''SEK_per_kWh'', ''EUR_per_kWh'', ''EXR'', ''time_start'', ''time_end''}) kvss \<Longrightarrow>
   costs_of_data (JArray (map JObject kvss))
     = Inr (map (\<lambda>kvs. \<lparr> SEK_per_kWh = the (map_of kvs ''SEK_per_kWh''),
                          EUR_per_kWh = the (map_of kvs ''EUR_per_kWh''),
                          EXR = the (map_of kvs ''EXR''),
                          time_start = the (map_of kvs ''time_start''),
                          time_end = the (map_of kvs ''time_end'') \<rparr>) kvss)"
  unfolding costs_of_data_def json.case
  by (induction kvss) (simp_all add: item_of_fields del: set_map)

lemma boundary_jan1_fields: "boundary_jan1 = JArray (map JObject boundary_fields)"
  by (simp add: boundary_jan1_def boundary_fields_def item_def)

lemma boundary_fields_shaped:
  "list_all (\<lambda>kvs. distinct (map fst kvs)
               \<and> set (map fst kvs)
                   = {''SEK_per_kWh'', ''EUR_per_kWh'', ''EXR'', ''time_start'', ''time_end''})
     boundary_fields"
  by (simp add: boundary_fields_def)

lemma boundary_fields_costs:
  "map (\<lambda>kvs. \<lparr> SEK_per_kWh = the (map_of kvs ''SEK_per_kWh''),
                 EUR_per_kWh = the (map_of kvs ''EUR_per_kWh''),
                 EXR = the (map_of kvs ''EXR''),
                 time_start = the (map_of kvs ''time_start''),
                 time_end = the (map_of kvs ''time_end'') \<rparr>) boundary_fields
     = [cost_of 1 ''2024-01-01T00:00:00+01:00'' ''2024-01-01T01:00:00+01:00'',
        cost_of 2 ''2024-01-01T01:00:00+01:00'' ''2024-01-01T02:00:00+01:00'']"
  by (simp add: boundary_fields_def cost_of_def)

lemma env_boundary_get:
  "requests_get env_boundary u = Inr \<lparr> status_code = 200, body = Some boundary_jan1 \<rparr>"
  by (simp add: env_boundary_def)

lemma strftime_Y_digits:
  assumes "1000 \<le> year d" and "year d \<le> 9999"
  shows "strftime_Y d = [''0123456789'' ! (nat (year d) div 1000),
                         ''0123456789'' ! (nat (year d) div 100 mod 10),
                         ''0123456789'' ! (nat (year d) div 10 mod 10),
                         ''0123456789'' ! (nat (year d) mod 10)]"
proof -
  let ?m = "nat (year d)"
  have m: "1000 \<le> ?m" "?m < 10000" using assms by simp_all
  have "?m div 1000 mod 10 = ?m div 1000" using m by simp
  then show ?thesis
    using assms str_nat_4 [OF m] by (simp add: strftime_Y_def str_int_def digit_char_def)
qed

lemma zero_pad_2_digits:
  assumes "0 \<le> n" and "n < 100"
  shows "zero_pad 2 n = [''0123456789'' ! (nat n div 10), ''0123456789'' ! (nat n mod 10)]"
proof -
  have "nat n div 10 mod 10 = nat n div 10" using assms by simp
  then show ?thesis using zero_pad_2 [OF assms] by (simp add: digit_char_def)
qed

section \<open>The claims about \<open>fetch_electricity_cost\<close>\<close>

text \<open>
  C4, as amended. For a key that is not cached and a request that the upstream answers,
  \<open>fetch_electricity_cost\<close> raises its own exception if and only if the status is not
  200, and the exception's message ends with the status: a success status other than
  200 fails too. On status 200, with a JSON body and no regular file in the way of the
  cache directories, the cache file holds the decoded body as it is and no entry that
  existed is changed; when the body is an array of objects that each have exactly the
  five fields, the call returns the series of these objects' field values, in the
  array's order.
\<close>

theorem fetch_uncached_by_status:
  assumes "\<not> path_exists (fs w) (cache_path d area)"
      and "requests_get env (url d area) = Inr response"
  shows "((\<exists>m. fst (fetch_electricity_cost env w d area) = Inl (Exception m))
            \<longleftrightarrow> status_code response \<noteq> 200)
         \<and> (status_code response \<noteq> 200 \<longrightarrow>
              fst (fetch_electricity_cost env w d area)
                = Inl (Exception (''Failed to fetch data: '' @ str_int (status_code response))))
         \<and> (status_code response = 200 \<and> body response = Some data
              \<and> no_file_in_the_way (fs w) (dirname (cache_path d area)) \<longrightarrow>
              fs (snd (fetch_electricity_cost env w d area)) (cache_path d area)
                  = Some (RegularFile (Some data))
              \<and> (\<forall>q. fs w q \<noteq> None \<longrightarrow>
                     fs (snd (fetch_electricity_cost env w d area)) q = fs w q)
              \<and> (\<forall>kvss. data = JArray (map JObject kvss)
                     \<and> list_all (\<lambda>kvs. distinct (map fst kvs)
                                    \<and> set (map fst kvs)
                                        = {''SEK_per_kWh'', ''EUR_per_kWh'', ''EXR'',
                                           ''time_start'', ''time_end''}) kvss \<longrightarrow>
                     fst (fetch_electricity_cost env w d area)
                       = Inr (map (\<lambda>kvs. \<lparr> SEK_per_kWh = the (map_of kvs ''SEK_per_kWh''),
                                            EUR_per_kWh = the (map_of kvs ''EUR_per_kWh''),
                                            EXR = the (map_of kvs ''EXR''),
                                            time_start = the (map_of kvs ''time_start''),
                                            time_end = the (map_of kvs ''time_end'') \<rparr>) kvss)))"
proof (cases "status_code response = 200")
  case True
  have noex: "\<And>m. fst (fetch_electricity_cost env w d area) \<noteq> Inl (Exception m)"
    using fetch_200_no_Exception [OF assms True] .
  have pers: "body response = Some data
      \<and> no_file_in_the_way (fs w) (dirname (cache_path d area)) \<longrightarrow>
      fs (snd (fetch_electricity_cost env w d area)) (cache_path d area)
          = Some (RegularFile (Some data))
      \<and> (\<forall>q. fs w q \<noteq> None \<longrightarrow> fs (snd (fetch_electricity_cost env w d area)) q = fs w q)
      \<and> (\<forall>kvss. data = JArray (map JObject kvss)
                     \<and> list_all (\<lambda>kvs. distinct (map fst kvs)
                                    \<and> set (map fst kvs)
                                        = {''SEK_per_kWh'', ''EUR_per_kWh'', ''EXR'',
                                           ''time_start'', ''time_end''}) kvss \<longrightarrow>
                     fst (fetch_electricity_cost env w d area)
                       = Inr (map (\<lambda>kvs. \<lparr> SEK_per_kWh = the (map_of kvs ''SEK_per_kWh''),
                                            EUR_per_kWh = the (map_of kvs ''EUR_per_kWh''),
                                            EXR = the (map_of kvs ''EXR''),
                                            time_start = the (map_of kvs ''time_start''),
                                            time_end = the (map_of kvs ''time_end'') \<rparr>) kvss))"
  proof (intro impI, elim conjE)
    assume b: "body response = Some data"
       and f: "no_file_in_the_way (fs w) (dirname (cache_path d area))"
    note p = fetch_200_persists [OF assms True b f]
    from p have r: "fst (fetch_electricity_cost env w d area) = costs_of_data data" by blast
    show "fs (snd (fetch_electricity_cost env w d area)) (cache_path d area)
             = Some (RegularFile (Some data))
      \<and> (\<forall>q. fs w q \<noteq> None \<longrightarrow> fs (snd (fetch_electricity_cost env w d area)) q = fs w q)
      \<and> (\<forall>kvss. data = JArray (map JObject kvss)
                     \<and> list_all (\<lambda>kvs. distinct (map fst kvs)
                                    \<and> set (map fst kvs)
                                        = {''SEK_per_kWh'', ''EUR_per_kWh'', ''EXR'',
                                           ''time_start'', ''time_end''}) kvss \<longrightarrow>
                     fst (fetch_electricity_cost env w d area)
                       = Inr (map (\<lambda>kvs. \<lparr> SEK_per_kWh = the (map_of kvs ''SEK_per_kWh''),
                                            EUR_per_kWh = the (map_of kvs ''EUR_per_kWh''),
                                            EXR = the (map_of kvs ''EXR''),
                                            time_start = the (map_of kvs ''time_start''),
                                            time_end = the (map_of kvs ''time_end'') \<rparr>) kvss))"
      using p unfolding r by (auto simp del: set_map dest: data_of_fields)
  qed
  show ?thesis using True noex pers by simp
next
  case False
  from fetch_not_200 [OF assms False] show ?thesis using False by simp
qed

theorem fetch_uncached_by_status_witness:
  "\<not> path_exists (fs empty_world) (cache_path jan1 SE4)
   \<and> requests_get env_boundary (url jan1 SE4)
       = Inr \<lparr> status_code = 200, body = Some boundary_jan1 \<rparr>
   \<and> no_file_in_the_way (fs empty_world) (dirname (cache_path jan1 SE4))
   \<and> boundary_jan1 = JArray (map JObject boundary_fields)
   \<and> list_all (\<lambda>kvs. distinct (map fst kvs)
                 \<and> set (map fst kvs)
                     = {''SEK_per_kWh'', ''EUR_per_kWh'', ''EXR'', ''time_start'', ''time_end''})
        boundary_fields
   \<and> fst (fetch_electricity_cost env_boundary empty_world jan1 SE4)
       = Inr [cost_of 1 ''2024-01-01T00:00:00+01:00'' ''2024-01-01T01:00:00+01:00'',
              cost_of 2 ''2024-01-01T01:00:00+01:00'' ''2024-01-01T02:00:00+01:00'']
   \<and> fs (snd (fetch_electricity_cost env_boundary empty_world jan1 SE4)) (cache_path jan1 SE4)
       = Some (RegularFile (Some boundary_jan1))"
proof -
  note t = fetch_uncached_by_status [OF empty_miss env_boundary_get, of jan1 SE4 boundary_jan1]
  have s: "status_code \<lparr> status_code = 200, body = Some boundary_jan1 \<rparr> = 200"
    and b: "body \<lparr> status_code = 200, body = Some boundary_jan1 \<rparr> = Some boundary_jan1"
    by simp_all
  from t s b empty_free [of "dirname (cache_path jan1 SE4)"]
  have p: "fs (snd (fetch_electricity_cost env_boundary empty_world jan1 SE4)) (cache_path jan1 SE4)
             = Some (RegularFile (Some boundary_jan1))"
    and r: "\<forall>kvss. boundary_jan1 = JArray (map JObject kvss)
                     \<and> list_all (\<lambda>kvs. distinct (map fst kvs)
                                    \<and> set (map fst kvs)
                                        = {''SEK_per_kWh'', ''EUR_per_kWh'', ''EXR'',
                                           ''time_start'', ''time_end''}) kvss \<longrightarrow>
                     fst (fetch_electricity_cost env_boundary empty_world jan1 SE4)
                       = Inr (map (\<lambda>kvs. \<lparr> SEK_per_kWh = the (map_of kvs ''SEK_per_kWh''),
                                            EUR_per_kWh = the (map_of kvs ''EUR_per_kWh''),
                                            EXR = the (map_of kvs ''EXR''),
                                            time_start = the (map_of kvs ''time_start''),
                                            time_end = the (map_of kvs ''time_end'') \<rparr>) kvss)"
    by blast+
  from r boundary_jan1_fields boundary_fields_shaped
  have "fst (fetch_electricity_cost env_boundary empty_world jan1 SE4)
          = Inr (map (\<lambda>kvs. \<lparr> SEK_per_kWh = the (map_of kvs ''SEK_per_kWh''),
                               EUR_per_kWh = the (map_of kvs ''EUR_per_kWh''),
                               EXR = the (map_of kvs ''EXR''),
                               time_start = the (map_of kvs ''time_start''),
                               time_end = the (map_of kvs ''time_end'') \<rparr>) boundary_fields)"
    by blast
  then have res: "fst (fetch_electricity_cost env_boundary empty_world jan1 SE4)
       = Inr [cost_of 1 ''2024-01-01T00:00:00+01:00'' ''2024-01-01T01:00:00+01:00'',
              cost_of 2 ''2024-01-01T01:00:00+01:00'' ''2024-01-01T02:00:00+01:00'']"
    by (simp only: boundary_fields_costs)
  show ?thesis
    using empty_miss [of "cache_path jan1 SE4"] env_boundary_get [of "url jan1 SE4"]
          empty_free [of "dirname (cache_path jan1 SE4)"] boundary_jan1_fields
          boundary_fields_shaped res p
    by (simp only: simp_thms)
qed

text \<open>
  C4 as stated fails: 201 is a success status, the key is not cached, and the call
  raises; nothing is written.
\<close>

theorem status_201_fails:
  "(200 :: int) \<le> 201 \<and> (201 :: int) < 300
   \<and> \<not> path_exists (fs empty_world) (cache_path jan1 SE4)
   \<and> requests_get env_201 (url jan1 SE4)
       = Inr \<lparr> status_code = 201, body = Some (JArray []) \<rparr>
   \<and> fst (fetch_electricity_cost env_201 empty_world jan1 SE4)
       = Inl (Exception ''Failed to fetch data: 201'')
   \<and> fs (snd (fetch_electricity_cost env_201 empty_world jan1 SE4)) (cache_path jan1 SE4)
       = None"
proof -
  have get: "requests_get env_201 (url jan1 SE4)
               = Inr \<lparr> status_code = 201, body = Some (JArray []) \<rparr>"
    by (simp add: env_201_def)
  have ne: "status_code \<lparr> status_code = 201, body = Some (JArray [] :: int json) \<rparr> \<noteq> 200"
    by simp
  from fetch_not_200 [OF empty_miss get ne] show ?thesis
    using get empty_miss [of "cache_path jan1 SE4"]
    by (simp add: str_int_201 empty_world_def)
qed

text \<open>
  C5. When the key is not cached and the upstream answers with a status that is not a
  success status, \<open>fetch_electricity_cost\<close> raises an exception whose message carries
  the status, has sent exactly one request (no retry), and leaves the file system as it
  was: no file and no directory is made.
\<close>

theorem fetch_failure_keeps_cache:
  assumes "\<not> path_exists (fs w) (cache_path d area)"
      and "requests_get env (url d area) = Inr response"
      and "\<not> (200 \<le> status_code response \<and> status_code response < 300)"
  shows "fst (fetch_electricity_cost env w d area)
           = Inl (Exception (''Failed to fetch data: '' @ str_int (status_code response)))
         \<and> requested (snd (fetch_electricity_cost env w d area)) = requested w @ [url d area]
         \<and> fs (snd (fetch_electricity_cost env w d area)) = fs w"
proof -
  from assms(3) have "status_code response \<noteq> 200" by auto
  from fetch_not_200 [OF assms(1,2) this] show ?thesis by simp
qed

theorem fetch_failure_keeps_cache_witness:
  "\<not> path_exists (fs empty_world) (cache_path jan1 SE4)
   \<and> requests_get env_500 (url jan1 SE4) = Inr \<lparr> status_code = 500, body = None \<rparr>
   \<and> \<not> ((200 :: int) \<le> 500 \<and> (500 :: int) < 300)
   \<and> fst (fetch_electricity_cost env_500 empty_world jan1 SE4)
       = Inl (Exception ''Failed to fetch data: 500'')
   \<and> requested (snd (fetch_electricity_cost env_500 empty_world jan1 SE4))
       = [''https://www.elprisetjustnu.se/api/v1/prices/2024/01-01_SE4.json'']
   \<and> fs (snd (fetch_electricity_cost env_500 empty_world jan1 SE4)) = fs empty_world"
proof -
  have get: "requests_get env_500 (url jan1 SE4)
               = Inr \<lparr> status_code = 500, body = (None :: int json option) \<rparr>"
    by (simp add: env_500_def)
  have bad: "\<not> (200 \<le> status_code \<lparr> status_code = 500, body = (None :: int json option) \<rparr>
               \<and> status_code \<lparr> status_code = 500, body = (None :: int json option) \<rparr> < 300)"
    by simp
  from fetch_failure_keeps_cache [OF empty_miss get bad] show ?thesis
    using get empty_miss [of "cache_path jan1 SE4"]
    by (simp add: str_int_500 url_jan1 empty_world_def)
qed

text \<open>
  C6. When the cache holds a JSON file for the key, \<open>fetch_electricity_cost\<close> sends no
  request, and a second call for the same key, whatever the upstream would answer by
  then, returns what the first returned and sends no request either. When the file is an
  array of objects that each have exactly the five fields, both calls return the series
  of these objects' field values, in the array's order.
\<close>

theorem cached_fetch_is_repeatable:
  assumes "fs w (cache_path d area) = Some (RegularFile (Some j))"
  shows "requested (snd (fetch_electricity_cost env w d area)) = requested w
         \<and> fst (fetch_electricity_cost env2 (snd (fetch_electricity_cost env w d area)) d area)
             = fst (fetch_electricity_cost env w d area)
         \<and> requested (snd (fetch_electricity_cost env2
                              (snd (fetch_electricity_cost env w d area)) d area))
             = requested w
         \<and> (\<forall>kvss. j = JArray (map JObject kvss)
                \<and> list_all (\<lambda>kvs. distinct (map fst kvs)
                               \<and> set (map fst kvs)
                                   = {''SEK_per_kWh'', ''EUR_per_kWh'', ''EXR'',
                                      ''time_start'', ''time_end''}) kvss \<longrightarrow>
                fst (fetch_electricity_cost env w d area)
                  = Inr (map (\<lambda>kvs. \<lparr> SEK_per_kWh = the (map_of kvs ''SEK_per_kWh''),
                                       EUR_per_kWh = the (map_of kvs ''EUR_per_kWh''),
                                       EXR = the (map_of kvs ''EXR''),
                                       time_start = the (map_of kvs ''time_start''),
                                       time_end = the (map_of kvs ''time_end'') \<rparr>) kvss)
                \<and> fst (fetch_electricity_cost env2
                          (snd (fetch_electricity_cost env w d area)) d area)
                  = Inr (map (\<lambda>kvs. \<lparr> SEK_per_kWh = the (map_of kvs ''SEK_per_kWh''),
                                       EUR_per_kWh = the (map_of kvs ''EUR_per_kWh''),
                                       EXR = the (map_of kvs ''EXR''),
                                       time_start = the (map_of kvs ''time_start''),
                                       time_end = the (map_of kvs ''time_end'') \<rparr>) kvss))"
proof -
  let ?w1 = "w\<lparr> calls := calls w @ [(d, area)] \<rparr>"
  have first: "fetch_electricity_cost env w d area = (costs_of_data j, ?w1)"
    using fetch_cached_file [OF assms, of env] .
  have "fs ?w1 (cache_path d area) = Some (RegularFile (Some j))"
    using assms by simp
  from fetch_cached_file [OF this, of env2]
  have second: "fetch_electricity_cost env2 ?w1 d area
                  = (costs_of_data j, ?w1\<lparr> calls := calls ?w1 @ [(d, area)] \<rparr>)" .
  show ?thesis
    unfolding first snd_conv fst_conv second
    by (auto simp del: set_map dest: data_of_fields)
qed

theorem cached_fetch_is_repeatable_witness:
  "fs cached_world (cache_path jan1 SE4) = Some (RegularFile (Some boundary_jan1))
   \<and> boundary_jan1 = JArray (map JObject boundary_fields)
   \<and> list_all (\<lambda>kvs. distinct (map fst kvs)
                 \<and> set (map fst kvs)
                     = {''SEK_per_kWh'', ''EUR_per_kWh'', ''EXR'', ''time_start'', ''time_end''})
        boundary_fields
   \<and> fst (fetch_electricity_cost env_500 cached_world jan1 SE4)
       = Inr [cost_of 1 ''2024-01-01T00:00:00+01:00'' ''2024-01-01T01:00:00+01:00'',
              cost_of 2 ''2024-01-01T01:00:00+01:00'' ''2024-01-01T02:00:00+01:00'']
   \<and> requested (snd (fetch_electricity_cost env_500 cached_world jan1 SE4)) = []
   \<and> fst (fetch_electricity_cost env_201
             (snd (fetch_electricity_cost env_500 cached_world jan1 SE4)) jan1 SE4)
       = Inr [cost_of 1 ''2024-01-01T00:00:00+01:00'' ''2024-01-01T01:00:00+01:00'',
              cost_of 2 ''2024-01-01T01:00:00+01:00'' ''2024-01-01T02:00:00+01:00'']
   \<and> requested (snd (fetch_electricity_cost env_201
                        (snd (fetch_electricity_cost env_500 cached_world jan1 SE4)) jan1 SE4))
       = []"
proof -
  have rq: "requested cached_world = []"
    by (simp add: cached_world_def)
  note t = cached_fetch_is_repeatable [OF cached_jan1, of env_500 env_201]
  from t have
    a: "requested (snd (fetch_electricity_cost env_500 cached_world jan1 SE4)) = requested cached_world"
    and c: "requested (snd (fetch_electricity_cost env_201
                        (snd (fetch_electricity_cost env_500 cached_world jan1 SE4)) jan1 SE4))
              = requested cached_world"
    and r: "\<forall>kvss. boundary_jan1 = JArray (map JObject kvss)
                \<and> list_all (\<lambda>kvs. distinct (map fst kvs)
                               \<and> set (map fst kvs)
                                   = {''SEK_per_kWh'', ''EUR_per_kWh'', ''EXR'',
                                      ''time_start'', ''time_end''}) kvss \<longrightarrow>
                fst (fetch_electricity_cost env_500 cached_world jan1 SE4)
                  = Inr (map (\<lambda>kvs. \<lparr> SEK_per_kWh = the (map_of kvs ''SEK_per_kWh''),
                                       EUR_per_kWh = the (map_of kvs ''EUR_per_kWh''),
                                       EXR = the (map_of kvs ''EXR''),
                                       time_start = the (map_of kvs ''time_start''),
                                       time_end = the (map_of kvs ''time_end'') \<rparr>) kvss)
                \<and> fst (fetch_electricity_cost env_201
                          (snd (fetch_electricity_cost env_500 cached_world jan1 SE4)) jan1 SE4)
                  = Inr (map (\<lambda>kvs. \<lparr> SEK_per_kWh = the (map_of kvs ''SEK_per_kWh''),
                                       EUR_per_kWh = the (map_of kvs ''EUR_per_kWh''),
                                       EXR = the (map_of kvs ''EXR''),
                                       time_start = the (map_of kvs ''time_start''),
                                       time_end = the (map_of kvs ''time_end'') \<rparr>) kvss)"
    by blast+
  from r boundary_jan1_fields boundary_fields_shaped
  have "fst (fetch_electricity_cost env_500 cached_world jan1 SE4)
          = Inr (map (\<lambda>kvs. \<lparr> SEK_per_kWh = the (map_of kvs ''SEK_per_kWh''),
                               EUR_per_kWh = the (map_of kvs ''EUR_per_kWh''),
                               EXR = the (map_of kvs ''EXR''),
                               time_start = the (map_of kvs ''time_start''),
                               time_end = the (map_of kvs ''time_end'') \<rparr>) boundary_fields)
        \<and> fst (fetch_electricity_cost env_201
                  (snd (fetch_electricity_cost env_500 cached_world jan1 SE4)) jan1 SE4)
          = Inr (map (\<lambda>kvs. \<lparr> SEK_per_kWh = the (map_of kvs ''SEK_per_kWh''),
                               EUR_per_kWh = the (map_of kvs ''EUR_per_kWh''),
                               EXR = the (map_of kvs ''EXR''),
                               time_start = the (map_of kvs ''time_start''),
                               time_end = the (map_of kvs ''time_end'') \<rparr>) boundary_fields)"
    by blast
  then have res: "fst (fetch_electricity_cost env_500 cached_world jan1 SE4)
       = Inr [cost_of 1 ''2024-01-01T00:00:00+01:00'' ''2024-01-01T01:00:00+01:00'',
              cost_of 2 ''2024-01-01T01:00:00+01:00'' ''2024-01-01T02:00:00+01:00'']"
    and res2: "fst (fetch_electricity_cost env_201
                  (snd (fetch_electricity_cost env_500 cached_world jan1 SE4)) jan1 SE4)
       = Inr [cost_of 1 ''2024-01-01T00:00:00+01:00'' ''2024-01-01T01:00:00+01:00'',
              cost_of 2 ''2024-01-01T01:00:00+01:00'' ''2024-01-01T02:00:00+01:00'']"
    by (simp_all only: boundary_fields_costs)
  show ?thesis
    using cached_jan1 boundary_jan1_fields boundary_fields_shaped res res2 a c
    by (simp only: rq simp_thms)
qed

text \<open>
  C10. When an entry exists at the cache path of the key, \<open>fetch_electricity_cost\<close>
  leaves the whole file system as it was (no directory made, no file written) and sends
  no request.
\<close>

theorem cache_hit_writes_nothing:
  assumes "path_exists (fs w) (cache_path d area)"
  shows "fs (snd (fetch_electricity_cost env w d area)) = fs w
         \<and> requested (snd (fetch_electricity_cost env w d area)) = requested w"
  using fetch_cached [OF assms, of env] by simp

theorem cache_hit_writes_nothing_witness:
  "path_exists (fs cached_world) (cache_path jan2 SE4)
   \<and> fs (snd (fetch_electricity_cost mock_env cached_world jan2 SE4)) = fs cached_world
   \<and> requested (snd (fetch_electricity_cost mock_env cached_world jan2 SE4)) = []"
proof -
  have ex: "path_exists (fs cached_world) (cache_path jan2 SE4)"
    using cached_jan2 by (simp add: path_exists_def)
  have r: "requested cached_world = []"
    by (simp add: cached_world_def)
  from cache_hit_writes_nothing [OF ex, of mock_env] show ?thesis
    using ex by (simp add: r)
qed

text \<open>
  C8, as amended. For every date from the year 1000 on that a \<^verbatim>\<open>date\<close> object can hold,
  and every area: with the year as its four decimal digits, the month and the day as two
  digits each, zero-padded, and the area's code SE1, SE2, SE3 or SE4, the request URL is
  \<^verbatim>\<open>https://www.elprisetjustnu.se/api/v1/prices/<year>/<month>-<day>_<area>.json\<close>, the
  cache path has the segments \<^verbatim>\<open>cache\<close>, \<^verbatim>\<open><year>\<close>, \<^verbatim>\<open><month>\<close>,
  \<^verbatim>\<open><day>_<area>.json\<close>, and this URL is the one \<open>fetch_electricity_cost\<close> requests when
  that path does not exist.
\<close>

theorem url_and_cache_path_format:
  assumes "valid_date d" and "1000 \<le> year d"
  shows "let Y = [''0123456789'' ! (nat (year d) div 1000),
                  ''0123456789'' ! (nat (year d) div 100 mod 10),
                  ''0123456789'' ! (nat (year d) div 10 mod 10),
                  ''0123456789'' ! (nat (year d) mod 10)];
             M = [''0123456789'' ! (nat (month d) div 10), ''0123456789'' ! (nat (month d) mod 10)];
             D = [''0123456789'' ! (nat (day d) div 10), ''0123456789'' ! (nat (day d) mod 10)];
             A = (case area of SE1 \<Rightarrow> ''SE1'' | SE2 \<Rightarrow> ''SE2'' | SE3 \<Rightarrow> ''SE3''
                  | SE4 \<Rightarrow> ''SE4'')
         in url d area = ''https://www.elprisetjustnu.se/api/v1/prices/'' @ Y @ ''/'' @ M @ ''-''
                           @ D @ ''_'' @ A @ ''.json''
            \<and> cache_path d area = [''cache'', Y, M, D @ ''_'' @ A @ ''.json'']
            \<and> path_join (cache_path d area) = ''cache/'' @ Y @ ''/'' @ M @ ''/'' @ D @ ''_'' @ A
                                                @ ''.json''
            \<and> requested (snd (fetch_electricity_cost env w d area))
                = (if path_exists (fs w) (cache_path d area) then requested w
                   else requested w @ [''https://www.elprisetjustnu.se/api/v1/prices/'' @ Y @ ''/''
                                         @ M @ ''-'' @ D @ ''_'' @ A @ ''.json''])"
proof -
  from assms have y: "year d \<le> 9999" and m: "0 \<le> month d" "month d < 100"
    and m12: "1 \<le> month d" "month d \<le> 12"
    and d1: "0 \<le> day d" "day d \<le> days_in_month (year d) (month d)"
    by (auto simp: valid_date_def)
  from d1(2) days_in_month_le [OF m12, of "year d"] have d: "day d < 100" by simp
  note Y = strftime_Y_digits [OF assms(2) y]
  have M: "strftime_m d = [''0123456789'' ! (nat (month d) div 10),
                           ''0123456789'' ! (nat (month d) mod 10)]"
    unfolding strftime_m_def by (rule zero_pad_2_digits [OF m])
  have D: "strftime_d d = [''0123456789'' ! (nat (day d) div 10),
                           ''0123456789'' ! (nat (day d) mod 10)]"
    unfolding strftime_d_def by (rule zero_pad_2_digits [OF d1(1) d])
  have A: "PriceArea_name area
             = (case area of SE1 \<Rightarrow> ''SE1'' | SE2 \<Rightarrow> ''SE2'' | SE3 \<Rightarrow> ''SE3'' | SE4 \<Rightarrow> ''SE4'')"
    by (cases area) simp_all
  have u: "url d area = ''https://www.elprisetjustnu.se/api/v1/prices/'' @ strftime_Y d @ ''/''
                          @ strftime_m d @ ''-'' @ strftime_d d @ ''_'' @ PriceArea_name area
                          @ ''.json''"
    by (simp add: url_def)
  have c: "cache_path d area = [''cache'', strftime_Y d, strftime_m d,
                                strftime_d d @ ''_'' @ PriceArea_name area @ ''.json'']"
    by (simp add: cache_path_def)
  show ?thesis
    unfolding Let_def fetch_requested
    unfolding u c Y M D A
    by simp
qed

theorem url_and_cache_path_format_witness:
  "valid_date jan1 \<and> 1000 \<le> year jan1
   \<and> url jan1 SE4 = ''https://www.elprisetjustnu.se/api/v1/prices/2024/01-01_SE4.json''
   \<and> cache_path jan1 SE4 = [''cache'', ''2024'', ''01'', ''01_SE4.json'']
   \<and> path_join (cache_path jan1 SE4) = ''cache/2024/01/01_SE4.json''
   \<and> requested (snd (fetch_electricity_cost mock_env empty_world jan1 SE4))
       = [''https://www.elprisetjustnu.se/api/v1/prices/2024/01-01_SE4.json'']"
proof -
  have y: "1000 \<le> year jan1" by (simp add: jan1_def)
  have f: "year jan1 = 2024" "month jan1 = 1" "day jan1 = 1" by (simp_all add: jan1_def)
  from url_and_cache_path_format [OF valid_jan1 y, of SE4 mock_env empty_world] show ?thesis
    using valid_jan1 y
    by (simp add: Let_def f empty_miss requested_empty)
qed

text \<open>
  C8 as stated fails: for 0999-12-31 the year is formatted with three digits, in the URL
  and in the cache path.
\<close>

theorem year_999_is_three_digits:
  "valid_date dec31_999
   \<and> strftime_Y dec31_999 = ''999'' \<and> length (strftime_Y dec31_999) = 3
   \<and> url dec31_999 SE4 = ''https://www.elprisetjustnu.se/api/v1/prices/999/12-31_SE4.json''
   \<and> cache_path dec31_999 SE4 = [''cache'', ''999'', ''12'', ''31_SE4.json'']
   \<and> requested (snd (fetch_electricity_cost mock_env empty_world dec31_999 SE4))
       = [''https://www.elprisetjustnu.se/api/v1/prices/999/12-31_SE4.json'']"
proof -
  have v: "valid_date dec31_999"
    by (simp add: valid_date_def dec31_999_def days_in_month_def DAYS_IN_MONTH_def)
  have y: "strftime_Y dec31_999 = ''999''"
    by (simp add: dec31_999_def strftime_simps format_simps)
  have u: "url dec31_999 SE4 = ''https://www.elprisetjustnu.se/api/v1/prices/999/12-31_SE4.json''"
    by (simp add: url_def dec31_999_def strftime_simps format_simps)
  have c: "cache_path dec31_999 SE4 = [''cache'', ''999'', ''12'', ''31_SE4.json'']"
    by (simp add: cache_path_def dec31_999_def strftime_simps format_simps)
  have r: "requested (snd (fetch_electricity_cost mock_env empty_world dec31_999 SE4))
             = [''https://www.elprisetjustnu.se/api/v1/prices/999/12-31_SE4.json'']"
    by (simp add: fetch_requested empty_miss requested_empty u)
  have l: "length (strftime_Y dec31_999) = 3"
    by (simp add: y)
  from v y l u c r show ?thesis by (simp only: simp_thms)
qed

section \<open>The claims about \<open>fetch_electricity_cost_utc\<close>\<close>

text \<open>
  C9. \<open>fetch_electricity_cost_utc\<close> reads only the year, the month and the day of its
  argument: two datetimes that agree on them, whatever their time of day and their
  \<open>tzinfo\<close>, give the same result and the same world, from the same world and upstream.
\<close>

theorem depends_on_year_month_day_only:
  assumes "year a = year b" and "month a = month b" and "day a = day b"
  shows "fetch_electricity_cost_utc env w a area = fetch_electricity_cost_utc env w b area"
  using assms by (simp add: fetch_electricity_cost_utc_def utc_day_def)

theorem depends_on_year_month_day_only_witness:
  "year date_example = year date_example_afternoon
   \<and> month date_example = month date_example_afternoon
   \<and> day date_example = day date_example_afternoon
   \<and> date_example \<noteq> date_example_afternoon
   \<and> fetch_electricity_cost_utc mock_env cached_world date_example SE4
       = fetch_electricity_cost_utc mock_env cached_world date_example_afternoon SE4"
proof -
  have f: "year date_example = year date_example_afternoon"
          "month date_example = month date_example_afternoon"
          "day date_example = day date_example_afternoon"
    by (simp_all add: date_example_def date_example_afternoon_def)
  have ne: "date_example \<noteq> date_example_afternoon"
    by (simp add: date_example_def date_example_afternoon_def)
  from depends_on_year_month_day_only [OF f, of mock_env cached_world SE4] show ?thesis
    using f ne by simp
qed

text \<open>
  C1. With \<open>startUtc\<close> midnight UTC of the requested date and
  \<open>endUtc = startUtc + 24h - 1s\<close>, and every fetched interval's two timestamps parsing
  and converting to UTC, the result of \<open>fetch_electricity_cost_utc\<close> is the fetched list,
  in its order, restricted to the intervals whose UTC end is greater than \<open>startUtc\<close> and
  whose UTC start is at most \<open>endUtc\<close>, each restamped. So an interval whose UTC end
  equals \<open>startUtc\<close> is left out, and an interval (its start before its end, as the data
  model has it) whose UTC start equals \<open>endUtc\<close> is kept.
\<close>

theorem utc_filter_keeps_overlap:
  assumes "utc_day date_utc = Inr (startUtc, endUtc)"
      and "stockholm_date env startUtc = Inr d1" and "stockholm_date env endUtc = Inr d2"
      and "fetch_stockholm env w d1 d2 area = (Inr cs, w1)"
      and "\<forall>c\<in>set cs. converts env c"
  shows "startUtc = (ymd2ord (year date_utc) (month date_utc) (day date_utc) - 1) * US_PER_DAY
         \<and> endUtc = startUtc + 24 * 3600 * US_PER_SECOND - US_PER_SECOND
         \<and> fst (fetch_electricity_cost_utc env w date_utc area)
             = Inr (map (restamp env)
                      (filter (\<lambda>c. end_utc env c > startUtc \<and> start_utc env c \<le> endUtc) cs))
         \<and> (\<forall>c\<in>set cs. end_utc env c = startUtc \<longrightarrow>
               c \<notin> set (filter (\<lambda>c. end_utc env c > startUtc \<and> start_utc env c \<le> endUtc) cs))
         \<and> (\<forall>c\<in>set cs. start_utc env c = endUtc \<and> start_utc env c < end_utc env c \<longrightarrow>
               c \<in> set (filter (\<lambda>c. end_utc env c > startUtc \<and> start_utc env c \<le> endUtc) cs))"
proof -
  note win = utc_day_window [OF assms(1)]
  have le: "startUtc \<le> endUtc"
    using win by (simp add: US_PER_SECOND_def)
  have res: "fst (fetch_electricity_cost_utc env w date_utc area)
             = Inr (map (restamp env)
                      (filter (\<lambda>c. end_utc env c > startUtc \<and> start_utc env c \<le> endUtc) cs))"
    using fetch_utc_unfold [OF assms(1,2,3), of w area] assms(4)
          costs_utc_loop_filter [OF assms(5), of startUtc endUtc "[]"]
    by simp
  show ?thesis using win res le by auto
qed

theorem utc_filter_keeps_overlap_witness:
  "utc_day date_example = Inr (start_example, end_example)
   \<and> stockholm_date mock_env start_example = Inr jan1
   \<and> stockholm_date mock_env end_example = Inr jan2
   \<and> fetch_stockholm mock_env cached_world jan1 jan2 SE4
       = (Inr boundary_costs, cached_world\<lparr> calls := [(jan1, SE4), (jan2, SE4)] \<rparr>)
   \<and> list_all (converts mock_env) boundary_costs
   \<and> fst (fetch_electricity_cost_utc mock_env cached_world date_example SE4)
       = Inr [cost_of 2 ''2024-01-01T00:00:00+00:00'' ''2024-01-01T01:00:00+00:00'',
              cost_of 3 ''2024-01-01T23:59:59+00:00'' ''2024-01-02T00:59:59+00:00'']
   \<and> end_utc mock_env (boundary_costs ! 0) = start_example
   \<and> boundary_costs ! 0
       \<notin> set (filter (\<lambda>c. end_utc mock_env c > start_example
                            \<and> start_utc mock_env c \<le> end_example) boundary_costs)
   \<and> start_utc mock_env (boundary_costs ! 2) = end_example
   \<and> boundary_costs ! 2
       \<in> set (filter (\<lambda>c. end_utc mock_env c > start_example
                            \<and> start_utc mock_env c \<le> end_example) boundary_costs)"
proof -
  note s1 = stockholm_start [OF mock_offset]
  note s2 = stockholm_end [OF mock_offset]
  note t = utc_filter_keeps_overlap [OF utc_day_example s1 s2 fetch_stockholm_boundary
                                        boundary_converts]
  have flt: "map (restamp mock_env)
               (filter (\<lambda>c. end_utc mock_env c > start_example
                            \<and> start_utc mock_env c \<le> end_example) boundary_costs)
             = [cost_of 2 ''2024-01-01T00:00:00+00:00'' ''2024-01-01T01:00:00+00:00'',
                cost_of 3 ''2024-01-01T23:59:59+00:00'' ''2024-01-02T00:59:59+00:00'']"
    using costs_utc_loop_filter [OF boundary_converts, of start_example end_example "[]"]
    by (simp add: boundary_loop)
  have e0: "end_utc mock_env (boundary_costs ! 0) = start_example"
    by (simp add: boundary_costs_def cost_of_def end_utc_def parse_boundary start_example_def)
  have s2': "start_utc mock_env (boundary_costs ! 2) = end_example"
    by (simp add: boundary_costs_def cost_of_def start_utc_def parse_boundary end_example_def)
  have e2: "end_utc mock_env (boundary_costs ! 2) = 63839753999000000"
    by (simp add: boundary_costs_def cost_of_def end_utc_def parse_boundary)
  have in0: "boundary_costs ! 0 \<in> set boundary_costs" and in2: "boundary_costs ! 2 \<in> set boundary_costs"
    by (simp_all add: boundary_costs_def)
  have lt: "start_utc mock_env (boundary_costs ! 2) < end_utc mock_env (boundary_costs ! 2)"
    by (simp add: s2' e2 end_example_def)
  from t in0 e0 have out: "boundary_costs ! 0
       \<notin> set (filter (\<lambda>c. end_utc mock_env c > start_example
                            \<and> start_utc mock_env c \<le> end_example) boundary_costs)"
    by blast
  from t in2 s2' lt have inn: "boundary_costs ! 2
       \<in> set (filter (\<lambda>c. end_utc mock_env c > start_example
                            \<and> start_utc mock_env c \<le> end_example) boundary_costs)"
    by blast
  from t have "fst (fetch_electricity_cost_utc mock_env cached_world date_example SE4)
       = Inr (map (restamp mock_env)
               (filter (\<lambda>c. end_utc mock_env c > start_example
                            \<and> start_utc mock_env c \<le> end_example) boundary_costs))"
    by blast
  then have res: "fst (fetch_electricity_cost_utc mock_env cached_world date_example SE4)
       = Inr [cost_of 2 ''2024-01-01T00:00:00+00:00'' ''2024-01-01T01:00:00+00:00'',
              cost_of 3 ''2024-01-01T23:59:59+00:00'' ''2024-01-02T00:59:59+00:00'']"
    by (simp only: flt)
  show ?thesis
    using utc_day_example s1 s2 fetch_stockholm_boundary boundary_converts res e0 out s2' inn
    unfolding list_all_iff by blast
qed

text \<open>
  C3, as amended. When the UTC day and its two Stockholm dates are within the range of
  \<^verbatim>\<open>datetime\<close>: if the two dates are equal, \<open>fetch_electricity_cost\<close> is called exactly
  once, for that date, and the loop runs on its series. Otherwise it is called for the
  start date first; when that call raises, it is the only call and its exception is the
  result; when it returns a series, the second call, for the end date, follows (exactly
  two calls, in that order), and when that returns too the loop runs on the
  concatenation, the start date's series first.
\<close>

theorem one_fetch_or_two_in_order:
  assumes "utc_day date_utc = Inr (startUtc, endUtc)"
      and "stockholm_date env startUtc = Inr d1" and "stockholm_date env endUtc = Inr d2"
  shows "(d1 = d2 \<longrightarrow>
            calls (snd (fetch_electricity_cost_utc env w date_utc area)) = calls w @ [(d1, area)]
            \<and> (\<forall>cs. fst (fetch_electricity_cost env w d1 area) = Inr cs \<longrightarrow>
                  fst (fetch_electricity_cost_utc env w date_utc area)
                    = costs_utc_loop env startUtc endUtc [] cs))
         \<and> (d1 \<noteq> d2 \<longrightarrow>
              (\<forall>e. fst (fetch_electricity_cost env w d1 area) = Inl e \<longrightarrow>
                  calls (snd (fetch_electricity_cost_utc env w date_utc area))
                    = calls w @ [(d1, area)]
                  \<and> fst (fetch_electricity_cost_utc env w date_utc area) = Inl e)
              \<and> (\<forall>cs1. fst (fetch_electricity_cost env w d1 area) = Inr cs1 \<longrightarrow>
                  calls (snd (fetch_electricity_cost_utc env w date_utc area))
                    = calls w @ [(d1, area), (d2, area)]
                  \<and> (\<forall>cs2. fst (fetch_electricity_cost env
                                   (snd (fetch_electricity_cost env w d1 area)) d2 area) = Inr cs2 \<longrightarrow>
                        fst (fetch_electricity_cost_utc env w date_utc area)
                          = costs_utc_loop env startUtc endUtc [] (cs1 @ cs2))))"
proof -
  note u = fetch_utc_unfold [OF assms, of w area]
  have calls_eq: "calls (snd (fetch_electricity_cost_utc env w date_utc area))
                  = calls (snd (fetch_stockholm env w d1 d2 area))"
    unfolding u by (simp split: prod.splits sum.splits)
  obtain r1 w1 where f1: "fetch_electricity_cost env w d1 area = (r1, w1)"
    by (cases "fetch_electricity_cost env w d1 area")
  obtain r2 w2 where f2: "fetch_electricity_cost env w1 d2 area = (r2, w2)"
    by (cases "fetch_electricity_cost env w1 d2 area")
  show ?thesis
    unfolding calls_eq fetch_stockholm_calls
    unfolding u
    using f1 f2 by (cases r1; cases r2) (auto simp: fetch_stockholm_def)
qed

theorem one_fetch_or_two_in_order_witness:
  "utc_day date_example = Inr (start_example, end_example)
   \<and> stockholm_date mock_env start_example = Inr jan1
   \<and> stockholm_date mock_env end_example = Inr jan2
   \<and> jan1 \<noteq> jan2
   \<and> fst (fetch_electricity_cost mock_env cached_world jan1 SE4) = Inr (take 2 boundary_costs)
   \<and> fst (fetch_electricity_cost mock_env
             (snd (fetch_electricity_cost mock_env cached_world jan1 SE4)) jan2 SE4)
       = Inr (drop 2 boundary_costs)
   \<and> calls (snd (fetch_electricity_cost_utc mock_env cached_world date_example SE4))
       = [(jan1, SE4), (jan2, SE4)]
   \<and> fst (fetch_electricity_cost_utc mock_env cached_world date_example SE4)
       = costs_utc_loop mock_env start_example end_example []
           (take 2 boundary_costs @ drop 2 boundary_costs)"
proof -
  note s1 = stockholm_start [OF mock_offset]
  note s2 = stockholm_end [OF mock_offset]
  note t = one_fetch_or_two_in_order [OF utc_day_example s1 s2, of cached_world SE4]
  have 1: "fetch_electricity_cost mock_env cached_world jan1 SE4
             = (Inr (take 2 boundary_costs), cached_world\<lparr> calls := [(jan1, SE4)] \<rparr>)"
    using fetch_cached_file [OF cached_jan1, of mock_env]
    by (simp add: costs_boundary_jan1 calls_cached)
  have "fs (cached_world\<lparr> calls := [(jan1, SE4)] \<rparr>) (cache_path jan2 SE4)
          = Some (RegularFile (Some boundary_jan2))"
    using cached_jan2 by simp
  from fetch_cached_file [OF this, of mock_env]
  have 2: "fst (fetch_electricity_cost mock_env (cached_world\<lparr> calls := [(jan1, SE4)] \<rparr>) jan2 SE4)
             = Inr (drop 2 boundary_costs)"
    by (simp add: costs_boundary_jan2)
  have f1: "fst (fetch_electricity_cost mock_env cached_world jan1 SE4) = Inr (take 2 boundary_costs)"
    by (simp only: 1 fst_conv)
  have f2: "fst (fetch_electricity_cost mock_env
             (snd (fetch_electricity_cost mock_env cached_world jan1 SE4)) jan2 SE4)
       = Inr (drop 2 boundary_costs)"
    by (simp only: 1 snd_conv 2)
  from t jan1_jan2 f1 f2 have
    "calls (snd (fetch_electricity_cost_utc mock_env cached_world date_example SE4))
       = calls cached_world @ [(jan1, SE4), (jan2, SE4)]
     \<and> fst (fetch_electricity_cost_utc mock_env cached_world date_example SE4)
       = costs_utc_loop mock_env start_example end_example []
           (take 2 boundary_costs @ drop 2 boundary_costs)"
    by blast
  then show ?thesis
    using utc_day_example s1 s2 jan1_jan2 f1 f2 by (simp only: calls_cached append_Nil simp_thms)
qed

text \<open>
  C3 as stated fails: for 2024-01-01 UTC the two Stockholm dates differ, the upstream
  answers 500 for the first, and \<open>fetch_electricity_cost\<close> is called once, not twice.
\<close>

theorem second_fetch_skipped:
  "utc_day date_example = Inr (start_example, end_example)
   \<and> stockholm_date env_500 start_example = Inr jan1
   \<and> stockholm_date env_500 end_example = Inr jan2
   \<and> jan1 \<noteq> jan2
   \<and> calls (snd (fetch_electricity_cost_utc env_500 empty_world date_example SE4))
       = [(jan1, SE4)]
   \<and> fst (fetch_electricity_cost_utc env_500 empty_world date_example SE4)
       = Inl (Exception ''Failed to fetch data: 500'')"
proof -
  note s1 = stockholm_start [OF env_500_offset]
  note s2 = stockholm_end [OF env_500_offset]
  have get: "requests_get env_500 (url jan1 SE4)
               = Inr \<lparr> status_code = 500, body = (None :: int json option) \<rparr>"
    by (simp add: env_500_def)
  have ne: "status_code \<lparr> status_code = 500, body = (None :: int json option) \<rparr> \<noteq> 200"
    by simp
  note f = fetch_not_200 [OF empty_miss get ne]
  have c: "calls empty_world = []" by (simp add: empty_world_def)
  have "fetch_electricity_cost_utc env_500 empty_world date_example SE4
          = (Inl (Exception ''Failed to fetch data: 500''),
             empty_world\<lparr> calls := [(jan1, SE4)], requested := [url jan1 SE4] \<rparr>)"
    unfolding fetch_utc_unfold [OF utc_day_example s1 s2]
    using jan1_jan2 by (simp add: fetch_stockholm_def f str_int_500 c requested_empty)
  then show ?thesis
    using utc_day_example s1 s2 jan1_jan2 by simp
qed



text \<open>
  C2. The scenario: UTC day 2024-01-01, area SE4, an empty cache, Stockholm one hour ahead
  of UTC, and an upstream that yields 24 hourly Stockholm-local intervals for 2024-01-01
  and 24 for 2024-01-02. \<open>fetch_electricity_cost_utc\<close> requests the two days and returns
  exactly 24 intervals. The first runs from 2024-01-01T00:00:00+00:00 to
  2024-01-01T01:00:00+00:00 and is the restamped local interval 01:00 to 02:00 of
  2024-01-01; the last ends at 2024-01-02T00:00:00+00:00; the starts are the 24 hours of
  the day, each once, and every interval ends where the next starts.
\<close>

theorem utc_day_2024_01_01_SE4:
  "costs_of_data (hourly_day jan1 jan2) = Inr day1_costs \<and> length day1_costs = 24
   \<and> costs_of_data (hourly_day jan2 jan3) = Inr day2_costs \<and> length day2_costs = 24
   \<and> fst (fetch_electricity_cost_utc mock_env empty_world date_example SE4) = Inr expected_utc
   \<and> requested (snd (fetch_electricity_cost_utc mock_env empty_world date_example SE4))
       = [''https://www.elprisetjustnu.se/api/v1/prices/2024/01-01_SE4.json'',
          ''https://www.elprisetjustnu.se/api/v1/prices/2024/01-02_SE4.json'']
   \<and> length expected_utc = 24
   \<and> hd expected_utc
       = \<lparr> SEK_per_kWh = JNumber 101, EUR_per_kWh = JNumber 1, EXR = JNumber 11,
           time_start = JString ''2024-01-01T00:00:00+00:00'',
           time_end = JString ''2024-01-01T01:00:00+00:00'' \<rparr>
   \<and> day1_costs ! 1
       = \<lparr> SEK_per_kWh = JNumber 101, EUR_per_kWh = JNumber 1, EXR = JNumber 11,
           time_start = JString ''2024-01-01T01:00:00+01:00'',
           time_end = JString ''2024-01-01T02:00:00+01:00'' \<rparr>
   \<and> hd expected_utc = restamp mock_env (day1_costs ! 1)
   \<and> time_end (last expected_utc) = JString ''2024-01-02T00:00:00+00:00''
   \<and> map time_start expected_utc = map (\<lambda>h. JString (utc_stamp h)) [0..23]
   \<and> distinct (map time_start expected_utc)
   \<and> map time_end (butlast expected_utc) = map time_start (tl expected_utc)"
proof -
  note s1 = stockholm_start [OF mock_offset]
  note s2 = stockholm_end [OF mock_offset]
  from mock_two_fetches obtain w2 where
    st: "fetch_stockholm mock_env empty_world jan1 jan2 SE4 = (Inr (day1_costs @ day2_costs), w2)"
    and rq: "requested w2 = [url jan1 SE4, url jan2 SE4]"
    by blast
  have F: "fetch_electricity_cost_utc mock_env empty_world date_example SE4 = (Inr expected_utc, w2)"
    unfolding fetch_utc_unfold [OF utc_day_example s1 s2] st
    by (simp add: mock_loop)
  have res: "fst (fetch_electricity_cost_utc mock_env empty_world date_example SE4) = Inr expected_utc"
    and req: "requested (snd (fetch_electricity_cost_utc mock_env empty_world date_example SE4))
       = [''https://www.elprisetjustnu.se/api/v1/prices/2024/01-01_SE4.json'',
          ''https://www.elprisetjustnu.se/api/v1/prices/2024/01-02_SE4.json'']"
    unfolding F by (simp_all add: rq url_jan1 url_jan2)
  have l1: "length day1_costs = 24" and l2: "length day2_costs = 24"
    by (simp_all add: day1_costs_def day2_costs_def hours_list)
  have le: "length expected_utc = 24"
    by (simp add: expected_utc_def hours_list)
  have hd_e: "hd expected_utc
       = \<lparr> SEK_per_kWh = JNumber 101, EUR_per_kWh = JNumber 1, EXR = JNumber 11,
           time_start = JString ''2024-01-01T00:00:00+00:00'',
           time_end = JString ''2024-01-01T01:00:00+00:00'' \<rparr>"
    by (simp add: expected_utc_def hours_list expected_item_def utc_stamp_def pad_simps)
  have src: "day1_costs ! 1
       = \<lparr> SEK_per_kWh = JNumber 101, EUR_per_kWh = JNumber 1, EXR = JNumber 11,
           time_start = JString ''2024-01-01T01:00:00+01:00'',
           time_end = JString ''2024-01-01T02:00:00+01:00'' \<rparr>"
    by (simp add: day1_costs_def hours_list hourly_cost_def stamp_simps)
  have src': "day1_costs ! 1 = hourly_cost jan1 jan2 1"
    by (simp add: day1_costs_def hours_list)
  have rs: "restamp mock_env (day1_costs ! 1) = hd expected_utc"
    unfolding src'
    by (simp add: restamp_def start_utc_def end_utc_def hourly_cost_def parse_day1 iso_hour
                  replace_times_def day_jan expected_utc_def hours_list expected_item_def)
  have last_e: "time_end (last expected_utc) = JString ''2024-01-02T00:00:00+00:00''"
    by (simp add: expected_utc_def hours_list expected_item_def)
  have starts: "map time_start expected_utc = map (\<lambda>h. JString (utc_stamp h)) [0..23]"
    by (simp add: expected_utc_def expected_item_def)
  have dist: "distinct (map time_start expected_utc)"
    by (simp add: expected_utc_def hours_list expected_item_def utc_stamp_def pad_simps)
  have contig: "map time_end (butlast expected_utc) = map time_start (tl expected_utc)"
    by (simp add: expected_utc_def hours_list expected_item_def)
  show ?thesis
    using day1_decodes l1 day2_decodes l2 res req le hd_e src rs [symmetric] last_e starts dist contig
    by (simp only: simp_thms)
qed

end
